theory Spec2Isabelle
  imports Main "HOL-Library.Word"
begin

section \<open>Serializers of the recipe application (api/serializers.py)\<close>

text \<open>
  The serializers are Python classes over Django REST framework. Each method that a
  property below is about is written as a function; the serializer context, the request
  and the database tables it reads or writes are explicit arguments, and every
  exception the Python can raise is a branch that returns a value of \<open>error\<close>.
\<close>

subsection \<open>Exceptions\<close>

text \<open>
  \<open>AttributeError a\<close> is a failed read of attribute \<open>a\<close>; \<open>KeyError k\<close> a
  failed dictionary access. \<open>ValidationError\<close> is the framework's field-level error,
  the only one the framework turns into a per-field message: it carries the error
  codes (for a field) or the names of the failing fields (for a serializer).
  \<open>BinasciiError\<close> is \<open>binascii.Error\<close>, raised by the base64 decoder.
\<close>

datatype error =
    AttributeError string
  | KeyError string
  | TypeError
  | ValueError
  | BinasciiError
  | AssertionError
  | IntegrityError
  | ValidationError "string list"

fun is_ValidationError :: "error \<Rightarrow> bool" where
  "is_ValidationError (ValidationError _) = True"
| "is_ValidationError _ = False"

subsection \<open>Users, requests and the serializer context\<close>

text \<open>
  A user instance as the serializers read it. \<open>recipes_count\<close> and
  \<open>is_subscribed_attr\<close> are attributes that only some querysets put on the instance
  (\<open>None\<close>: the attribute is not there).
\<close>

record user =
  pk :: nat
  email :: string
  username :: string
  first_name :: string
  last_name :: string
  recipes_count :: "int option"
  is_subscribed_attr :: "bool option"

text \<open>\<open>request.user\<close> is a user instance, or the framework's anonymous user.\<close>

datatype request_user = AnonymousUser | AuthUser user

text \<open>
  \<open>request.query_params\<close> is a multi-valued dictionary: every key has the list of
  the values given for it, and \<open>get\<close> returns the last one, or the default when the
  key is missing or its list is empty.
\<close>

type_synonym query_dict = "(string \<times> string list) list"

definition query_dict_get :: "query_dict \<Rightarrow> string \<Rightarrow> string option" where
  "query_dict_get q key =
     (case map_of q key of
        None \<Rightarrow> None
      | Some vs \<Rightarrow> (if vs = [] then None else Some (last vs)))"

record request =
  query_params :: query_dict
  req_user :: request_user

text \<open>A value stored in the context under \<open>recipes_limit\<close>: an int, a str or None.\<close>

datatype ctx_value = CInt int | CStr string | CNone

text \<open>
  The serializer context: a dictionary with the two keys the serializers read
  (\<open>None\<close>: the key is missing). A serializer built without a context has the
  empty one.
\<close>

record serializer_context =
  ctx_request :: "request option"
  ctx_recipes_limit :: "ctx_value option"

definition empty_context :: serializer_context where
  "empty_context = \<lparr>ctx_request = None, ctx_recipes_limit = None\<rparr>"

subsection \<open>CustomUserSerializer.is_subscribed_user\<close>

text \<open>
  Modelled from the spec: the relation \<open>following\<close> of the user model (users/models.py)
  is \<open>the following-relation rows\<close> from a follower to a followee. The table lists the
  pairs (follower, followee); \<open>following tbl u\<close> are the users \<open>u\<close> follows.
\<close>

type_synonym subscription_table = "(nat \<times> nat) list"

definition following :: "subscription_table \<Rightarrow> user \<Rightarrow> nat list" where
  "following tbl u = map snd (filter (\<lambda>row. fst row = pk u) tbl)"

text \<open>
  \<^verbatim>\<open>
  def is_subscribed_user(self, obj):
      request = self.context.get("request")
      is_subscribed = request.query_params.get("is_subscribed", False)
      if is_subscribed:
          user = request.user
          subscribed = user.following.filter(pk=obj.pk).exists()
          return subscribed
      else:
          return False
  \<close>
  \<open>is_subscribed\<close> is the parameter's string, or \<open>None\<close> for the default
  \<open>False\<close>; a string is true when it is not empty. The anonymous user has no
  attribute \<open>following\<close>.
\<close>

definition is_subscribed_user :: "serializer_context \<Rightarrow> subscription_table \<Rightarrow> user \<Rightarrow> error + bool" where
  "is_subscribed_user ctx tbl obj =
     (case ctx_request ctx of
        None \<Rightarrow> Inl (AttributeError ''query_params'')
      | Some request \<Rightarrow>
          (let is_subscribed = query_dict_get (query_params request) ''is_subscribed'' in
           if (case is_subscribed of None \<Rightarrow> False | Some s \<Rightarrow> s \<noteq> [])
           then (case req_user request of
                   AnonymousUser \<Rightarrow> Inl (AttributeError ''following'')
                 | AuthUser u \<Rightarrow> Inr (pk obj \<in> set (following tbl u)))
           else Inr False))"

subsection \<open>Python strings\<close>

text \<open>
  \<open>s.startswith(p)\<close>, and \<open>s.split(sep)\<close> for a separator that is not empty:
  the pieces between the occurrences of \<open>sep\<close>, found from left to right without
  overlap. \<open>cur\<close> holds the piece being read, reversed.
\<close>

definition startswith :: "string \<Rightarrow> string \<Rightarrow> bool" where
  "startswith s p = (take (length p) s = p)"

fun split_from :: "string \<Rightarrow> string \<Rightarrow> string \<Rightarrow> string list" where
  "split_from sep cur [] = [rev cur]"
| "split_from sep cur (c # cs) =
     (if take (length sep) (c # cs) = sep
      then rev cur # split_from sep [] (drop (length sep - 1) cs)
      else split_from sep (c # cur) cs)"

definition str_split :: "string \<Rightarrow> string \<Rightarrow> string list" where
  "str_split s sep = split_from sep [] s"

subsection \<open>base64.b64decode and base64.b64encode\<close>

type_synonym byte = "8 word"
type_synonym bytes = "byte list"

definition table_b2a_base64 :: string where
  "table_b2a_base64 =
     ''ABCDEFGHIJKLMNOPQRSTUVWXYZabcdefghijklmnopqrstuvwxyz0123456789+/''"

fun index_of :: "'a \<Rightarrow> 'a list \<Rightarrow> nat option" where
  "index_of x [] = None"
| "index_of x (y # ys) = (if x = y then Some 0 else map_option Suc (index_of x ys))"

text \<open>The value of a character of the alphabet; \<open>None\<close> for any other character.\<close>

definition table_a2b_base64 :: "char \<Rightarrow> nat option" where
  "table_a2b_base64 c = index_of c table_b2a_base64"

definition BASE64_PAD :: char where
  "BASE64_PAD = CHR ''=''"

text \<open>
  \<open>find_valid s num\<close>: the character after \<open>num\<close> valid ones in \<open>s\<close>, where the
  characters of the alphabet and the pad character are the valid ones.
\<close>

fun find_valid :: "string \<Rightarrow> nat \<Rightarrow> char option" where
  "find_valid [] num = None"
| "find_valid (c # cs) num =
     (if c = BASE64_PAD \<or> table_a2b_base64 c \<noteq> None
      then (if num = 0 then Some c else find_valid cs (num - 1))
      else find_valid cs num)"

text \<open>
  The decoder that \<open>base64.b64decode(s)\<close> runs with its default \<open>validate=False\<close>
  (\<open>binascii.a2b_base64\<close>, as in the Python versions that Django 3.2 supports). It
  reads the characters one by one: \<open>quad_pos\<close> is the position in the current group
  of four, \<open>leftchar\<close> holds the \<open>leftbits\<close> bits not yet written out. A character
  outside the alphabet is skipped. A pad character is skipped too, unless it closes a
  group (at position 3, or at position 2 when the next valid character is a pad as
  well): there the decoder stops, dropping the bits left over. The result is the
  number of bits left at the end, and the bytes written.
\<close>

fun a2b_loop :: "nat \<Rightarrow> nat \<Rightarrow> nat \<Rightarrow> string \<Rightarrow> nat \<times> bytes" where
  "a2b_loop quad_pos leftchar leftbits [] = (leftbits, [])"
| "a2b_loop quad_pos leftchar leftbits (c # cs) =
     (if c = BASE64_PAD then
        (if quad_pos < 2 \<or> (quad_pos = 2 \<and> find_valid (c # cs) 1 \<noteq> Some BASE64_PAD)
         then a2b_loop quad_pos leftchar leftbits cs
         else (0, []))
      else
        (case table_a2b_base64 c of
           None \<Rightarrow> a2b_loop quad_pos leftchar leftbits cs
         | Some this_ch \<Rightarrow>
             (if leftbits + 6 \<ge> 8
              then (case a2b_loop ((quad_pos + 1) mod 4)
                           ((leftchar * 64 + this_ch) mod 2 ^ (leftbits + 6 - 8))
                           (leftbits + 6 - 8) cs of
                      (left, out) \<Rightarrow>
                        (left, of_nat ((leftchar * 64 + this_ch) div 2 ^ (leftbits + 6 - 8) mod 256) # out))
              else a2b_loop ((quad_pos + 1) mod 4) (leftchar * 64 + this_ch) (leftbits + 6) cs)))"

definition a2b_base64 :: "string \<Rightarrow> error + bytes" where
  "a2b_base64 s =
     (case a2b_loop 0 0 0 s of
        (left, out) \<Rightarrow> (if left \<noteq> 0 then Inl BinasciiError else Inr out))"

text \<open>
  \<open>b64decode\<close> of a str first encodes it as ASCII, which raises ValueError when a
  character is not ASCII.
\<close>

definition b64decode :: "string \<Rightarrow> error + bytes" where
  "b64decode s =
     (if \<exists>c \<in> set s. of_char c \<ge> (128 :: nat) then Inl ValueError else a2b_base64 s)"

text \<open>
  The standard encoder: three bytes give four characters, and a last group of one or
  two bytes is padded.
\<close>

definition b2a :: "nat \<Rightarrow> char" where
  "b2a n = table_b2a_base64 ! n"

fun b64encode :: "bytes \<Rightarrow> string" where
  "b64encode [] = []"
| "b64encode [a] =
     [b2a (unat a div 4), b2a (unat a mod 4 * 16), BASE64_PAD, BASE64_PAD]"
| "b64encode [a, b] =
     [b2a (unat a div 4), b2a (unat a mod 4 * 16 + unat b div 16),
      b2a (unat b mod 16 * 4), BASE64_PAD]"
| "b64encode (a # b # c # rest) =
     [b2a (unat a div 4), b2a (unat a mod 4 * 16 + unat b div 16),
      b2a (unat b mod 16 * 4 + unat c div 64), b2a (unat c mod 64)] @ b64encode rest"

subsection \<open>Base64ImageField.to_internal_value\<close>

text \<open>
  What comes in for the image field: a str, an uploaded file (a name and a content),
  or anything else. \<open>ContentFile(content, name=...)\<close> is such a file.
\<close>

record content_file =
  cf_name :: string
  cf_content :: bytes

datatype upload = Str string | File content_file | Other

text \<open>
  \<^verbatim>\<open>
  if isinstance(data, str) and data.startswith('data:image'):
      img_format, img_str = data.split(';base64,')
      ext = img_format.split('/')[-1]
      data = ContentFile(base64.b64decode(img_str), name='img.' + ext)
  \<close>
  Unpacking the split into two names raises ValueError unless it has two pieces.
\<close>

definition Base64ImageField_decode :: "upload \<Rightarrow> error + upload" where
  "Base64ImageField_decode data =
     (case data of
        Str s \<Rightarrow>
          (if startswith s ''data:image'' then
             (case str_split s '';base64,'' of
                [img_format, img_str] \<Rightarrow>
                  (let ext = last (str_split img_format ''/'') in
                   case b64decode img_str of
                     Inl e \<Rightarrow> Inl e
                   | Inr content \<Rightarrow>
                       Inr (File \<lparr>cf_name = ''img.'' @ ext, cf_content = content\<rparr>))
              | _ \<Rightarrow> Inl ValueError)
           else Inr data)
      | _ \<Rightarrow> Inr data)"

text \<open>
  The base class (the framework's ImageField): the data must be a file with a name and
  a content that is not empty, and an image that the imaging library accepts;
  \<open>image_ok\<close> stands for that last check. Each failure is a ValidationError.
\<close>

definition ImageField_to_internal_value ::
  "(content_file \<Rightarrow> bool) \<Rightarrow> upload \<Rightarrow> error + content_file" where
  "ImageField_to_internal_value image_ok data =
     (case data of
        File f \<Rightarrow>
          (if cf_name f = [] then Inl (ValidationError [''no_name''])
           else if cf_content f = [] then Inl (ValidationError [''empty''])
           else if image_ok f then Inr f
           else Inl (ValidationError [''invalid_image'']))
      | _ \<Rightarrow> Inl (ValidationError [''invalid'']))"

text \<open>\<^verbatim>\<open>return super().to_internal_value(data)\<close>\<close>

definition Base64ImageField_to_internal_value ::
  "(content_file \<Rightarrow> bool) \<Rightarrow> upload \<Rightarrow> error + content_file" where
  "Base64ImageField_to_internal_value image_ok data =
     (case Base64ImageField_decode data of
        Inl e \<Rightarrow> Inl e
      | Inr data' \<Rightarrow> ImageField_to_internal_value image_ok data')"

subsection \<open>Recipes, ingredients and the tables\<close>

text \<open>
  Modelled from the spec: the models (recipes/models.py, users/models.py) are not part
  of the files at hand. A recipe has \<open>name, cooking time, text, image, publish date,
  author, set of tags\<close> and an \<open>ordered list of RecipeIngredient lines\<close>, each of
  which \<open>belongs to exactly one Recipe and references exactly one Ingredient\<close> with an
  amount; \<open>ordering is insertion order\<close>. A table is the list of its rows in the
  order they were inserted, and a query returns rows in that order. \<open>recipe_seq\<close> is
  the key that the next recipe row gets.
\<close>

record tag =
  tag_id :: nat
  tag_name :: string
  color :: string
  slug :: string

record ingredient =
  ing_id :: nat
  ing_name :: string
  measurement_unit :: string

record recipe =
  r_id :: nat
  r_name :: string
  cooking_time :: int
  r_text :: string
  r_tags :: "tag list"
  r_image :: content_file
  pub_date :: "int option"
  author :: "user option"

record recipe_ingredient =
  ri_recipe :: nat
  ri_ingredient :: ingredient
  ri_amount :: int

record db =
  recipes :: "recipe list"
  recipe_seq :: nat
  recipe_ingredients :: "recipe_ingredient list"
  ingredient_table :: "ingredient list"
  tag_table :: "tag list"
  subscriptions :: subscription_table

text \<open>\<open>instance.recipes.all()\<close>: the recipes whose author is the user.\<close>

definition user_recipes :: "db \<Rightarrow> user \<Rightarrow> recipe list" where
  "user_recipes d u =
     filter (\<lambda>r. case author r of None \<Rightarrow> False | Some a \<Rightarrow> pk a = pk u) (recipes d)"

text \<open>\<open>instance.recipe_ingredients.all()\<close>: the ingredient lines of the recipe.\<close>

definition recipe_lines :: "db \<Rightarrow> recipe \<Rightarrow> recipe_ingredient list" where
  "recipe_lines d r = filter (\<lambda>row. ri_recipe row = r_id r) (recipe_ingredients d)"

subsection \<open>RecipeMinifiedSerializer and SubscriptionSerializer.to_representation\<close>

text \<open>The fields \<open>id, name, image, cooking_time\<close>; the image is given by its name.\<close>

record recipe_minified =
  m_id :: nat
  m_name :: string
  m_image :: string
  m_cooking_time :: int

definition RecipeMinifiedSerializer :: "recipe \<Rightarrow> recipe_minified" where
  "RecipeMinifiedSerializer r =
     \<lparr>m_id = r_id r, m_name = r_name r, m_image = cf_name (r_image r),
      m_cooking_time = cooking_time r\<rparr>"

text \<open>
  Python's \<open>int(x)\<close>: an int is returned as it is, None raises TypeError, and a str
  is parsed, which raises ValueError when it is not a number. \<open>str_to_int\<close> stands
  for the parser of the language.
\<close>

fun py_int :: "(string \<Rightarrow> int option) \<Rightarrow> ctx_value \<Rightarrow> error + int" where
  "py_int str_to_int (CInt i) = Inr i"
| "py_int str_to_int (CStr s) = (case str_to_int s of None \<Rightarrow> Inl ValueError | Some i \<Rightarrow> Inr i)"
| "py_int str_to_int CNone = Inl TypeError"

text \<open>
  \<open>queryset[:k]\<close>: the first \<open>k\<close> rows (none for \<open>k = 0\<close>); the ORM refuses a
  negative bound with an assertion.
\<close>

definition queryset_slice :: "'a list \<Rightarrow> int \<Rightarrow> error + 'a list" where
  "queryset_slice rows k = (if k < 0 then Inl AssertionError else Inr (take (nat k) rows))"

record subscription_repr =
  s_id :: nat
  s_email :: string
  s_username :: string
  s_first_name :: string
  s_last_name :: string
  s_is_subscribed :: bool
  s_recipes :: "recipe_minified list"

text \<open>
  \<^verbatim>\<open>
  def to_representation(self, instance):
      representation = super().to_representation(instance)
      recipes_limit = int(self.context.get('recipes_limit', 0))
      if recipes_limit is not None:
          recipes_queryset = instance.recipes.all()[:recipes_limit]
      else:
          recipes_queryset = instance.recipes.all()
      representation['recipes'] = RecipeMinifiedSerializer(recipes_queryset, many=True).data
      return representation
  \<close>
  \<open>recipes_limit\<close> is the result of \<open>int\<close>, so that the test \<open>is not None\<close> sees
  \<open>Some\<close> of it. The base representation has the five fields of the user and
  \<open>is_subscribed\<close>, declared \<open>BooleanField(default=True)\<close>. Modelled from the
  spec: this field is \<open>defaulted true\<close>, so it is the attribute of the instance when
  there is one and true otherwise.
\<close>

definition SubscriptionSerializer_to_representation ::
  "(string \<Rightarrow> int option) \<Rightarrow> serializer_context \<Rightarrow> db \<Rightarrow> user \<Rightarrow> error + subscription_repr" where
  "SubscriptionSerializer_to_representation str_to_int ctx d instance =
     (case py_int str_to_int (case ctx_recipes_limit ctx of None \<Rightarrow> CInt 0 | Some v \<Rightarrow> v) of
        Inl e \<Rightarrow> Inl e
      | Inr n \<Rightarrow>
          (let recipes_limit = Some n in
           case (case recipes_limit of
                   Some k \<Rightarrow> queryset_slice (user_recipes d instance) k
                 | None \<Rightarrow> Inr (user_recipes d instance)) of
             Inl e \<Rightarrow> Inl e
           | Inr recipes_queryset \<Rightarrow>
               Inr \<lparr>s_id = pk instance, s_email = email instance, s_username = username instance,
                    s_first_name = first_name instance, s_last_name = last_name instance,
                    s_is_subscribed =
                      (case is_subscribed_attr instance of None \<Rightarrow> True | Some b \<Rightarrow> b),
                    s_recipes = map RecipeMinifiedSerializer recipes_queryset\<rparr>))"

subsection \<open>CustomUserSignUpSerializer\<close>

text \<open>
  The validated sign-up data is a dictionary from field names to strings. The created
  instance has the key it was given and the columns that were set on it.
  \<open>user_writes\<close> is every row image written to the user table, oldest first: one by
  the create of the base class, one by each \<open>save()\<close>. \<open>user_insert_ok\<close> stands for
  the constraints of the table, \<open>make_password\<close> for the hashing routine of the
  identity store.
\<close>

record user_instance =
  ui_pk :: nat
  ui_attrs :: "(string \<times> string) list"

record user_store =
  user_seq :: nat
  user_writes :: "user_instance list"

definition dict_pop :: "string \<Rightarrow> (string \<times> 'v) list \<Rightarrow> (string \<times> 'v) list" where
  "dict_pop key kvs = filter (\<lambda>kv. fst kv \<noteq> key) kvs"

definition ModelSerializer_create_user ::
  "(user_store \<Rightarrow> user_instance \<Rightarrow> bool) \<Rightarrow> (string \<times> string) list \<Rightarrow> user_store
     \<Rightarrow> (error + user_instance) \<times> user_store" where
  "ModelSerializer_create_user user_insert_ok validated_data st =
     (let instance = \<lparr>ui_pk = user_seq st, ui_attrs = validated_data\<rparr> in
      if user_insert_ok st instance
      then (Inr instance,
            st\<lparr>user_seq := Suc (user_seq st), user_writes := user_writes st @ [instance]\<rparr>)
      else (Inl IntegrityError, st))"

definition set_password :: "(string \<Rightarrow> string) \<Rightarrow> user_instance \<Rightarrow> string \<Rightarrow> user_instance" where
  "set_password make_password instance raw_password =
     instance\<lparr>ui_attrs :=
       (''password'', make_password raw_password) # dict_pop ''password'' (ui_attrs instance)\<rparr>"

definition save_user :: "user_instance \<Rightarrow> user_store \<Rightarrow> user_store" where
  "save_user instance st = st\<lparr>user_writes := user_writes st @ [instance]\<rparr>"

text \<open>
  \<^verbatim>\<open>
  def create(self, validated_data):
      password = validated_data.pop('password')
      instance = super().create(validated_data)
      instance.set_password(password)
      instance.save()
      return instance
  \<close>
\<close>

definition CustomUserSignUpSerializer_create ::
  "(string \<Rightarrow> string) \<Rightarrow> (user_store \<Rightarrow> user_instance \<Rightarrow> bool) \<Rightarrow> (string \<times> string) list
     \<Rightarrow> user_store \<Rightarrow> (error + user_instance) \<times> user_store" where
  "CustomUserSignUpSerializer_create make_password user_insert_ok validated_data st =
     (case map_of validated_data ''password'' of
        None \<Rightarrow> (Inl (KeyError ''password''), st)
      | Some password \<Rightarrow>
          (case ModelSerializer_create_user user_insert_ok
                  (dict_pop ''password'' validated_data) st of
             (Inl e, st1) \<Rightarrow> (Inl e, st1)
           | (Inr instance, st1) \<Rightarrow>
               (let instance' = set_password make_password instance password in
                (Inr instance', save_user instance' st1))))"

text \<open>
  The fields of the serializer with their \<open>write_only\<close> flag, and the output: one
  entry for each field that is not write-only.
\<close>

datatype json = JInt int | JStr string | JNull

definition signup_fields :: "(string \<times> bool) list" where
  "signup_fields =
     [(''id'', False), (''email'', False), (''username'', False), (''first_name'', False),
      (''last_name'', False), (''password'', True)]"

definition CustomUserSignUpSerializer_to_representation ::
  "user_instance \<Rightarrow> (string \<times> json) list" where
  "CustomUserSignUpSerializer_to_representation instance =
     map (\<lambda>field.
            (fst field,
             if fst field = ''id'' then JInt (int (ui_pk instance))
             else (case map_of (ui_attrs instance) (fst field) of
                     None \<Rightarrow> JNull
                   | Some v \<Rightarrow> JStr v)))
         (filter (\<lambda>field. \<not> snd field) signup_fields)"

subsection \<open>The read serializers of a recipe\<close>

record ingredient_repr =
  ir_id :: nat
  ir_name :: string
  ir_measurement_unit :: string
  ir_amount :: int

text \<open>\<open>id\<close>, \<open>name\<close> and \<open>measurement_unit\<close> come from the ingredient of the line.\<close>

definition RecipeIngredientSerializer :: "recipe_ingredient \<Rightarrow> ingredient_repr" where
  "RecipeIngredientSerializer row =
     \<lparr>ir_id = ing_id (ri_ingredient row), ir_name = ing_name (ri_ingredient row),
      ir_measurement_unit = measurement_unit (ri_ingredient row), ir_amount = ri_amount row\<rparr>"

record user_repr =
  ur_id :: nat
  ur_email :: string
  ur_username :: string
  ur_first_name :: string
  ur_last_name :: string
  ur_is_subscribed :: bool
  ur_recipes :: "recipe_minified list"
  ur_recipes_count :: "int option"

text \<open>
  CustomUserSerializer: the fields are computed in the order of \<open>Meta.fields\<close>.
  \<open>is_subscribed\<close> is the method field. \<open>recipes_count\<close> is a read-only field
  that reads an attribute of the instance: when the instance has no such attribute the
  field is skipped, and the representation has no such key (\<open>None\<close>).
\<close>

definition CustomUserSerializer_to_representation ::
  "serializer_context \<Rightarrow> db \<Rightarrow> user \<Rightarrow> error + user_repr" where
  "CustomUserSerializer_to_representation ctx d u =
     (case is_subscribed_user ctx (subscriptions d) u of
        Inl e \<Rightarrow> Inl e
      | Inr subscribed \<Rightarrow>
          Inr \<lparr>ur_id = pk u, ur_email = email u, ur_username = username u,
               ur_first_name = first_name u, ur_last_name = last_name u,
               ur_is_subscribed = subscribed,
               ur_recipes = map RecipeMinifiedSerializer (user_recipes d u),
               ur_recipes_count = recipes_count u\<rparr>)"

record recipe_repr =
  rr_id :: nat
  rr_tags :: "tag list"
  rr_ingredients :: "ingredient_repr list"
  rr_image :: string
  rr_author :: "user_repr option"
  rr_name :: string
  rr_cooking_time :: int
  rr_text :: string

text \<open>
  RecipeSerializer: every field but \<open>pub_date\<close>. \<open>ingredients\<close> has the source
  \<open>recipe_ingredients\<close>; \<open>author\<close> is the nested CustomUserSerializer, which shares
  the context of its parent and is not called when the recipe has no author.
\<close>

definition RecipeSerializer_to_representation ::
  "serializer_context \<Rightarrow> db \<Rightarrow> recipe \<Rightarrow> error + recipe_repr" where
  "RecipeSerializer_to_representation ctx d instance =
     (case (case author instance of
              None \<Rightarrow> Inr None
            | Some a \<Rightarrow>
                (case CustomUserSerializer_to_representation ctx d a of
                   Inl e \<Rightarrow> Inl e
                 | Inr rep \<Rightarrow> Inr (Some rep))) of
        Inl e \<Rightarrow> Inl e
      | Inr author_rep \<Rightarrow>
          Inr \<lparr>rr_id = r_id instance, rr_tags = r_tags instance,
               rr_ingredients = map RecipeIngredientSerializer (recipe_lines d instance),
               rr_image = cf_name (r_image instance), rr_author = author_rep,
               rr_name = r_name instance, rr_cooking_time = cooking_time instance,
               rr_text = r_text instance\<rparr>)"

subsection \<open>RecipeCreateSerializer\<close>

text \<open>
  The request payload, and the validated data that \<open>create\<close> receives. In the
  validated data a key can be missing (\<open>None\<close>): \<open>ingredients\<close> once it is popped,
  \<open>amount\<close> when the payload had none, and \<open>author\<close>, which is not a field of the
  serializer and is only there when the caller of \<open>save\<close> passed it as a keyword.
\<close>

record payload_ingredient =
  pi_id :: nat
  pi_amount :: "int option"

record payload =
  p_name :: string
  p_cooking_time :: int
  p_text :: string
  p_tags :: "nat list"
  p_ingredients :: "payload_ingredient list"
  p_image :: upload
  p_pub_date :: "int option"

record ingredient_data =
  d_ingredient :: ingredient
  d_amount :: "int option"

record validated_data =
  vd_name :: string
  vd_cooking_time :: int
  vd_text :: string
  vd_tags :: "tag list"
  vd_ingredients :: "ingredient_data list option"
  vd_image :: content_file
  vd_pub_date :: "int option"
  vd_author :: "user option"

text \<open>
  What the models decide and the files at hand do not show is a parameter: the
  constraints under which the database accepts a recipe row and an ingredient line,
  whether \<open>amount\<close> is required and which amounts its validators accept, and the
  scalar fields of a payload that the validators of the model reject.
\<close>

record schema =
  recipe_insert_ok :: "db \<Rightarrow> recipe \<Rightarrow> bool"
  line_insert_ok :: "db \<Rightarrow> recipe_ingredient \<Rightarrow> bool"
  amount_required :: bool
  amount_ok :: "int \<Rightarrow> bool"
  scalar_errors :: "payload \<Rightarrow> string list"

text \<open>
  \<open>PrimaryKeyRelatedField(queryset=Ingredient.objects.all(), source='ingredient')\<close>
  looks the key up in the table; the result is stored under \<open>ingredient\<close>.
\<close>

definition PrimaryKeyRelatedField_ingredient :: "ingredient list \<Rightarrow> nat \<Rightarrow> error + ingredient" where
  "PrimaryKeyRelatedField_ingredient tbl key =
     (case find (\<lambda>i. ing_id i = key) tbl of
        None \<Rightarrow> Inl (ValidationError [''does_not_exist''])
      | Some i \<Rightarrow> Inr i)"

definition PrimaryKeyRelatedField_tag :: "tag list \<Rightarrow> nat \<Rightarrow> error + tag" where
  "PrimaryKeyRelatedField_tag tbl key =
     (case find (\<lambda>t. tag_id t = key) tbl of
        None \<Rightarrow> Inl (ValidationError [''does_not_exist''])
      | Some t \<Rightarrow> Inr t)"

definition amount_field :: "schema \<Rightarrow> int option \<Rightarrow> error + int option" where
  "amount_field sch a =
     (case a of
        None \<Rightarrow> (if amount_required sch then Inl (ValidationError [''required'']) else Inr None)
      | Some n \<Rightarrow> (if amount_ok sch n then Inr (Some n) else Inl (ValidationError [''invalid''])))"

text \<open>
  RecipeIngredientCreateSerializer (fields \<open>id\<close> and \<open>amount\<close>): the names of the
  fields that failed, or the validated entry.
\<close>

definition RecipeIngredientCreateSerializer_to_internal_value ::
  "schema \<Rightarrow> ingredient list \<Rightarrow> payload_ingredient \<Rightarrow> error + ingredient_data" where
  "RecipeIngredientCreateSerializer_to_internal_value sch tbl entry =
     (case (PrimaryKeyRelatedField_ingredient tbl (pi_id entry), amount_field sch (pi_amount entry)) of
        (Inr i, Inr a) \<Rightarrow> Inr \<lparr>d_ingredient = i, d_amount = a\<rparr>
      | (Inl _, Inr _) \<Rightarrow> Inl (ValidationError [''id''])
      | (Inr _, Inl _) \<Rightarrow> Inl (ValidationError [''amount''])
      | (Inl _, Inl _) \<Rightarrow> Inl (ValidationError [''id'', ''amount'']))"

text \<open>A list field (\<open>many=True\<close>) validates every item, and fails when one of them does.\<close>

fun all_valid :: "(error + 'a) list \<Rightarrow> 'a list option" where
  "all_valid [] = Some []"
| "all_valid (Inl e # rs) = None"
| "all_valid (Inr x # rs) = map_option ((#) x) (all_valid rs)"

text \<open>
  The validation of the whole payload. The serializer declares \<open>ingredients\<close> only;
  its other fields are the ones the framework builds from the model, so that \<open>image\<close>
  is a plain ImageField (here \<open>image_ok\<close> also stands for the limit that the model
  sets on the length of the file name). Every field is run, and the ValidationError
  of a field is kept under the name of the field.
\<close>

definition RecipeCreateSerializer_run_validation ::
  "schema \<Rightarrow> (content_file \<Rightarrow> bool) \<Rightarrow> db \<Rightarrow> payload \<Rightarrow> error + validated_data" where
  "RecipeCreateSerializer_run_validation sch image_ok d p =
     (let tags_r = all_valid (map (PrimaryKeyRelatedField_tag (tag_table d)) (p_tags p));
          ingredients_r = all_valid
            (map (RecipeIngredientCreateSerializer_to_internal_value sch (ingredient_table d))
               (p_ingredients p));
          errors = scalar_errors sch p
            @ (if tags_r = None then [''tags''] else [])
            @ (if ingredients_r = None then [''ingredients''] else [])
      in case ImageField_to_internal_value image_ok (p_image p) of
           Inl e \<Rightarrow> Inl (ValidationError (errors @ [''image'']))
         | Inr image_file \<Rightarrow>
             (case (tags_r, ingredients_r) of
                (Some ts, Some ds) \<Rightarrow>
                  (if errors = []
                   then Inr \<lparr>vd_name = p_name p, vd_cooking_time = p_cooking_time p,
                             vd_text = p_text p, vd_tags = ts, vd_ingredients = Some ds,
                             vd_image = image_file, vd_pub_date = p_pub_date p, vd_author = None\<rparr>
                   else Inl (ValidationError errors))
              | _ \<Rightarrow> Inl (ValidationError errors)))"

text \<open>
  The create of the base class (ModelSerializer): a recipe row built from the
  validated data, with the next key, is inserted; the tags are set on it.
\<close>

definition ModelSerializer_create :: "schema \<Rightarrow> validated_data \<Rightarrow> db \<Rightarrow> (error + recipe) \<times> db" where
  "ModelSerializer_create sch validated d =
     (let instance = \<lparr>r_id = recipe_seq d, r_name = vd_name validated,
                       cooking_time = vd_cooking_time validated, r_text = vd_text validated,
                       r_tags = vd_tags validated, r_image = vd_image validated,
                       pub_date = vd_pub_date validated, author = vd_author validated\<rparr>
      in if recipe_insert_ok sch d instance
         then (Inr instance, d\<lparr>recipes := recipes d @ [instance], recipe_seq := Suc (recipe_seq d)\<rparr>)
         else (Inl IntegrityError, d))"

text \<open>
  \<^verbatim>\<open>
  for ingredient_data in ingredients:
      RecipeIngredient(
          recipe=instance,
          ingredient=ingredient_data['ingredient'],
          amount=ingredient_data['amount']
      ).save()
  \<close>
  The loop stops at the first exception; the rows saved before it stay.
\<close>

fun save_ingredients :: "schema \<Rightarrow> recipe \<Rightarrow> ingredient_data list \<Rightarrow> db \<Rightarrow> error option \<times> db" where
  "save_ingredients sch instance [] d = (None, d)"
| "save_ingredients sch instance (ingredient_data # rest) d =
     (case d_amount ingredient_data of
        None \<Rightarrow> (Some (KeyError ''amount''), d)
      | Some a \<Rightarrow>
          (let row = \<lparr>ri_recipe = r_id instance, ri_ingredient = d_ingredient ingredient_data,
                      ri_amount = a\<rparr>
           in if line_insert_ok sch d row
              then save_ingredients sch instance rest
                     (d\<lparr>recipe_ingredients := recipe_ingredients d @ [row]\<rparr>)
              else (Some IntegrityError, d)))"

text \<open>
  \<^verbatim>\<open>
  def create(self, validated_data):
      author = self.context.get('request').user
      ingredients = validated_data.pop('ingredients')
      instance = super().create(validated_data)
      for ingredient_data in ingredients:
          ...
      return instance
  \<close>
  \<open>author\<close> is read and not used afterwards.
\<close>

definition RecipeCreateSerializer_create ::
  "schema \<Rightarrow> serializer_context \<Rightarrow> validated_data \<Rightarrow> db \<Rightarrow> (error + recipe) \<times> db" where
  "RecipeCreateSerializer_create sch ctx validated d =
     (case ctx_request ctx of
        None \<Rightarrow> (Inl (AttributeError ''user''), d)
      | Some request \<Rightarrow>
          (let author = req_user request in
           case vd_ingredients validated of
             None \<Rightarrow> (Inl (KeyError ''ingredients''), d)
           | Some ingredients \<Rightarrow>
               (case ModelSerializer_create sch (validated\<lparr>vd_ingredients := None\<rparr>) d of
                  (Inl e, d1) \<Rightarrow> (Inl e, d1)
                | (Inr instance, d1) \<Rightarrow>
                    (case save_ingredients sch instance ingredients d1 of
                       (Some e, d2) \<Rightarrow> (Inl e, d2)
                     | (None, d2) \<Rightarrow> (Inr instance, d2)))))"

text \<open>
  \<^verbatim>\<open>
  def to_representation(self, instance):
      return RecipeSerializer(instance).data
  \<close>
  The read serializer is built without a context.
\<close>

definition RecipeCreateSerializer_to_representation :: "db \<Rightarrow> recipe \<Rightarrow> error + recipe_repr" where
  "RecipeCreateSerializer_to_representation d instance =
     RecipeSerializer_to_representation empty_context d instance"

text \<open>
  A create request, as the framework runs it: \<open>is_valid()\<close>, and then \<open>save()\<close>, which
  refuses to call \<open>create\<close> on data that did not pass. \<open>kw_author\<close> is the author
  keyword of \<open>save\<close>, if the caller passes one.
\<close>

definition RecipeCreateSerializer_save ::
  "schema \<Rightarrow> (content_file \<Rightarrow> bool) \<Rightarrow> serializer_context \<Rightarrow> user option \<Rightarrow> payload \<Rightarrow> db
     \<Rightarrow> (error + recipe) \<times> db" where
  "RecipeCreateSerializer_save sch image_ok ctx kw_author p d =
     (case RecipeCreateSerializer_run_validation sch image_ok d p of
        Inl e \<Rightarrow> (Inl e, d)
      | Inr validated \<Rightarrow>
          RecipeCreateSerializer_create sch ctx (validated\<lparr>vd_author := kw_author\<rparr>) d)"


section \<open>Properties\<close>

subsection \<open>The is_subscribed flag\<close>

lemma following_iff: "b \<in> set (following tbl u) \<longleftrightarrow> (pk u, b) \<in> set tbl"
  by (force simp: following_def)

text \<open>
  C5: a user representation requested without an \<open>is_subscribed\<close> query parameter
  has the flag false, also when the subscription table holds a row from the viewer to
  the target user.
\<close>

theorem is_subscribed_absent_param:
  assumes "ctx_request ctx = Some r"
    and "map_of (query_params r) ''is_subscribed'' = None"
  shows "is_subscribed_user ctx tbl obj = Inr False"
  using assms by (simp add: is_subscribed_user_def query_dict_get_def)

theorem is_subscribed_absent_param_witness:
  "is_subscribed_user
     \<lparr>ctx_request = Some \<lparr>query_params = [(''page'', [''2''])],
        req_user = AuthUser \<lparr>pk = 1, email = ''a@x.org'', username = ''a'', first_name = ''A'',
          last_name = ''B'', recipes_count = None, is_subscribed_attr = None\<rparr>\<rparr>,
      ctx_recipes_limit = None\<rparr>
     [(1, 2)]
     \<lparr>pk = 2, email = ''c@x.org'', username = ''c'', first_name = ''C'', last_name = ''D'',
       recipes_count = None, is_subscribed_attr = None\<rparr>
   = Inr False \<and> (1, 2) \<in> set [(1 :: nat, 2 :: nat)]"
  using is_subscribed_absent_param
    [of "\<lparr>ctx_request = Some \<lparr>query_params = [(''page'', [''2''])],
           req_user = AuthUser \<lparr>pk = 1, email = ''a@x.org'', username = ''a'', first_name = ''A'',
             last_name = ''B'', recipes_count = None, is_subscribed_attr = None\<rparr>\<rparr>,
         ctx_recipes_limit = None\<rparr>"
        "\<lparr>query_params = [(''page'', [''2''])],
           req_user = AuthUser \<lparr>pk = 1, email = ''a@x.org'', username = ''a'', first_name = ''A'',
             last_name = ''B'', recipes_count = None, is_subscribed_attr = None\<rparr>\<rparr>"]
  by simp

text \<open>
  C9 as stated: every request that carries a non-empty \<open>is_subscribed\<close> parameter gets
  the result of the subscription lookup. An anonymous request is one where it does not:
  the lookup reads \<open>following\<close> on the anonymous user and raises.
\<close>

theorem is_subscribed_anonymous_counterexample:
  "is_subscribed_user
     \<lparr>ctx_request = Some \<lparr>query_params = [(''is_subscribed'', [''1''])], req_user = AnonymousUser\<rparr>,
      ctx_recipes_limit = None\<rparr>
     []
     \<lparr>pk = 2, email = ''c@x.org'', username = ''c'', first_name = ''C'', last_name = ''D'',
       recipes_count = None, is_subscribed_attr = None\<rparr>
   = Inl (AttributeError ''following'')"
  by (simp add: is_subscribed_user_def query_dict_get_def)

text \<open>
  C9, amended: for a request of an authenticated user that carries an
  \<open>is_subscribed\<close> parameter whose (last) value is any non-empty string, the flag is
  whether the subscription table has a row from the viewer to the target user. The
  test is that the string is not empty: \<open>false\<close> and \<open>0\<close> pass it.
\<close>

theorem is_subscribed_nonempty_param:
  assumes "ctx_request ctx = Some r"
    and "query_dict_get (query_params r) ''is_subscribed'' = Some v"
    and "v \<noteq> []"
    and "req_user r = AuthUser u"
  shows "is_subscribed_user ctx tbl obj = Inr ((pk u, pk obj) \<in> set tbl)"
  using assms by (simp add: is_subscribed_user_def following_iff)

theorem is_subscribed_nonempty_param_witness:
  "is_subscribed_user
     \<lparr>ctx_request = Some \<lparr>query_params = [(''is_subscribed'', [''false''])],
        req_user = AuthUser \<lparr>pk = 1, email = ''a@x.org'', username = ''a'', first_name = ''A'',
          last_name = ''B'', recipes_count = None, is_subscribed_attr = None\<rparr>\<rparr>,
      ctx_recipes_limit = None\<rparr>
     [(1, 2)]
     \<lparr>pk = 2, email = ''c@x.org'', username = ''c'', first_name = ''C'', last_name = ''D'',
       recipes_count = None, is_subscribed_attr = None\<rparr>
   = Inr True"
  using is_subscribed_nonempty_param
    [of "\<lparr>ctx_request = Some \<lparr>query_params = [(''is_subscribed'', [''false''])],
           req_user = AuthUser \<lparr>pk = 1, email = ''a@x.org'', username = ''a'', first_name = ''A'',
             last_name = ''B'', recipes_count = None, is_subscribed_attr = None\<rparr>\<rparr>,
         ctx_recipes_limit = None\<rparr>"
        "\<lparr>query_params = [(''is_subscribed'', [''false''])],
           req_user = AuthUser \<lparr>pk = 1, email = ''a@x.org'', username = ''a'', first_name = ''A'',
             last_name = ''B'', recipes_count = None, is_subscribed_attr = None\<rparr>\<rparr>"
        "''false''"
        "\<lparr>pk = 1, email = ''a@x.org'', username = ''a'', first_name = ''A'',
             last_name = ''B'', recipes_count = None, is_subscribed_attr = None\<rparr>"
        "[(1, 2)]"
        "\<lparr>pk = 2, email = ''c@x.org'', username = ''c'', first_name = ''C'', last_name = ''D'',
       recipes_count = None, is_subscribed_attr = None\<rparr>"]
  by (simp add: query_dict_get_def)

subsection \<open>The base64 decoder inverts the encoder\<close>

text \<open>
  The value of the \<open>i\<close>-th character of the alphabet is \<open>i\<close>, the pad character is
  not in the alphabet, and the alphabet is ASCII.
\<close>

lemma index_of_nth: "distinct xs \<Longrightarrow> i < length xs \<Longrightarrow> index_of (xs ! i) xs = Some i"
proof (induction xs arbitrary: i)
  case Nil
  then show ?case by simp
next
  case (Cons y ys)
  show ?case
  proof (cases i)
    case 0
    then show ?thesis by simp
  next
    case (Suc j)
    with Cons.prems have "j < length ys" and "ys ! j \<noteq> y" and "distinct ys"
      by auto
    with Cons.IH [of j] Suc show ?thesis by simp
  qed
qed

lemma length_table: "length table_b2a_base64 = 64"
  by (simp add: table_b2a_base64_def)

lemma distinct_table: "distinct table_b2a_base64"
  by (simp add: table_b2a_base64_def)

lemma a2b_b2a: "i < 64 \<Longrightarrow> table_a2b_base64 (b2a i) = Some i"
  by (simp add: table_a2b_base64_def b2a_def index_of_nth distinct_table length_table)

lemma b2a_in_table: "i < 64 \<Longrightarrow> b2a i \<in> set table_b2a_base64"
  by (simp add: b2a_def length_table)

lemma pad_not_in_table: "BASE64_PAD \<notin> set table_b2a_base64"
  by (simp add: table_b2a_base64_def BASE64_PAD_def)

lemma b2a_not_pad: "i < 64 \<Longrightarrow> b2a i \<noteq> BASE64_PAD"
  using b2a_in_table pad_not_in_table by metis

lemma table_ascii: "\<forall>c \<in> set table_b2a_base64. of_char c < (128 :: nat)"
  by (simp add: table_b2a_base64_def)

lemma b2a_ascii: "i < 64 \<Longrightarrow> of_char (b2a i) < (128 :: nat)"
  using b2a_in_table table_ascii by blast

lemma a2b_loop_step0:
  "i < 64 \<Longrightarrow> a2b_loop 0 0 0 (b2a i # cs) = a2b_loop 1 i 6 cs"
  by (simp add: a2b_b2a b2a_not_pad)

lemma a2b_loop_step1:
  "i < 64 \<Longrightarrow> a2b_loop 1 lc 6 (b2a i # cs) =
     (case a2b_loop 2 ((lc * 64 + i) mod 16) 4 cs of
        (left, out) \<Rightarrow> (left, of_nat ((lc * 64 + i) div 16 mod 256) # out))"
  by (simp add: a2b_b2a b2a_not_pad) (simp only: numeral_2_eq_2 [symmetric])

lemma a2b_loop_step2:
  "i < 64 \<Longrightarrow> a2b_loop 2 lc 4 (b2a i # cs) =
     (case a2b_loop 3 ((lc * 64 + i) mod 4) 2 cs of
        (left, out) \<Rightarrow> (left, of_nat ((lc * 64 + i) div 4 mod 256) # out))"
  by (simp add: a2b_b2a b2a_not_pad)

lemma a2b_loop_step3:
  "i < 64 \<Longrightarrow> a2b_loop 3 lc 2 (b2a i # cs) =
     (case a2b_loop 0 0 0 cs of
        (left, out) \<Rightarrow> (left, of_nat ((lc * 64 + i) mod 256) # out))"
  by (simp add: a2b_b2a b2a_not_pad)

lemma a2b_loop_pad2: "a2b_loop 2 lc 4 (BASE64_PAD # BASE64_PAD # cs) = (0, [])"
  by simp

lemma a2b_loop_pad3: "a2b_loop 3 lc 2 (BASE64_PAD # cs) = (0, [])"
  by simp

lemma unat_byte: "unat (a :: byte) < 256"
  using unsigned_less [of a] by simp

lemma byte_of_unat: "(of_nat (unat a) :: byte) = a"
  by simp

lemma sextet_bounds:
  fixes a b c :: byte
  shows "unat a div 4 < 64" "unat a mod 4 * 16 + unat b div 16 < 64"
    "unat b mod 16 * 4 + unat c div 64 < 64" "unat c mod 64 < 64"
    "unat a mod 4 * 16 < 64" "unat b mod 16 * 4 < 64"
  using unat_byte [of a] unat_byte [of b] unat_byte [of c] by simp_all

lemma quad_nat:
  fixes a b c :: nat
  assumes "a < 256" "b < 256" "c < 256"
  shows "(a div 4 * 64 + (a mod 4 * 16 + b div 16)) div 16 mod 256 = a"
    and "(a div 4 * 64 + (a mod 4 * 16 + b div 16)) mod 16 = b div 16"
    and "(b div 16 * 64 + (b mod 16 * 4 + c div 64)) div 4 mod 256 = b"
    and "(b div 16 * 64 + (b mod 16 * 4 + c div 64)) mod 4 = c div 64"
    and "(c div 64 * 64 + c mod 64) mod 256 = c"
    and "(a div 4 * 64 + a mod 4 * 16) div 16 mod 256 = a"
    and "(a div 4 * 64 + a mod 4 * 16) mod 16 = 0"
    and "(b div 16 * 64 + b mod 16 * 4) div 4 mod 256 = b"
proof -
  have a16: "a div 4 * 64 + a mod 4 * 16 = a * 16"
    by presburger
  have b4: "b div 16 * 64 + b mod 16 * 4 = b * 4"
    by presburger
  have hb: "b div 16 < 16" and hc: "c div 64 < 4"
    using assms by simp_all
  have e1: "a div 4 * 64 + (a mod 4 * 16 + b div 16) = a * 16 + b div 16"
    using a16 by simp
  have e2: "b div 16 * 64 + (b mod 16 * 4 + c div 64) = b * 4 + c div 64"
    using b4 by simp
  show "(a div 4 * 64 + (a mod 4 * 16 + b div 16)) div 16 mod 256 = a"
    unfolding e1 using hb assms by simp
  show "(a div 4 * 64 + (a mod 4 * 16 + b div 16)) mod 16 = b div 16"
    unfolding e1 using hb by simp
  show "(b div 16 * 64 + (b mod 16 * 4 + c div 64)) div 4 mod 256 = b"
    unfolding e2 using hc assms by simp
  show "(b div 16 * 64 + (b mod 16 * 4 + c div 64)) mod 4 = c div 64"
    unfolding e2 using hc by simp
  show "(c div 64 * 64 + c mod 64) mod 256 = c"
    using assms by simp
  show "(a div 4 * 64 + a mod 4 * 16) div 16 mod 256 = a"
    unfolding a16 using assms by simp
  show "(a div 4 * 64 + a mod 4 * 16) mod 16 = 0"
    unfolding a16 by simp
  show "(b div 16 * 64 + b mod 16 * 4) div 4 mod 256 = b"
    unfolding b4 using assms by simp
qed

lemmas quad_arith = quad_nat [OF unat_byte unat_byte unat_byte]

lemma a2b_loop_quad:
  fixes a b c :: byte
  shows "a2b_loop 0 0 0 (b2a (unat a div 4) # b2a (unat a mod 4 * 16 + unat b div 16) #
      b2a (unat b mod 16 * 4 + unat c div 64) # b2a (unat c mod 64) # cs) =
    (case a2b_loop 0 0 0 cs of (left, out) \<Rightarrow> (left, a # b # c # out))"
proof -
  obtain left out where r: "a2b_loop 0 0 0 cs = (left, out)"
    by (cases "a2b_loop 0 0 0 cs")
  have 4: "a2b_loop 3 (unat c div 64) 2 (b2a (unat c mod 64) # cs) = (left, c # out)"
    by (simp only: a2b_loop_step3 [OF sextet_bounds(4)] quad_arith(5) r prod.case byte_of_unat)
  have 3: "a2b_loop 2 (unat b div 16) 4
      (b2a (unat b mod 16 * 4 + unat c div 64) # b2a (unat c mod 64) # cs) = (left, b # c # out)"
    by (simp only: a2b_loop_step2 [OF sextet_bounds(3)] quad_arith(3,4) 4 prod.case byte_of_unat)
  have 2: "a2b_loop 1 (unat a div 4) 6 (b2a (unat a mod 4 * 16 + unat b div 16) #
      b2a (unat b mod 16 * 4 + unat c div 64) # b2a (unat c mod 64) # cs) = (left, a # b # c # out)"
    by (simp only: a2b_loop_step1 [OF sextet_bounds(2)] quad_arith(1,2) 3 prod.case byte_of_unat)
  show ?thesis
    by (simp only: a2b_loop_step0 [OF sextet_bounds(1)] 2 r prod.case)
qed

lemma a2b_loop_single:
  fixes a :: byte
  shows "a2b_loop 0 0 0
      (b2a (unat a div 4) # b2a (unat a mod 4 * 16) # BASE64_PAD # BASE64_PAD # cs) = (0, [a])"
proof -
  have 2: "a2b_loop 1 (unat a div 4) 6 (b2a (unat a mod 4 * 16) # BASE64_PAD # BASE64_PAD # cs)
      = (0, [a])"
    by (simp only: a2b_loop_step1 [OF sextet_bounds(5)] quad_arith(6,7) a2b_loop_pad2 prod.case
        byte_of_unat)
  show ?thesis
    by (simp only: a2b_loop_step0 [OF sextet_bounds(1)] 2)
qed

lemma a2b_loop_pair:
  fixes a b :: byte
  shows "a2b_loop 0 0 0 (b2a (unat a div 4) # b2a (unat a mod 4 * 16 + unat b div 16) #
      b2a (unat b mod 16 * 4) # BASE64_PAD # cs) = (0, [a, b])"
proof -
  have 3: "a2b_loop 2 (unat b div 16) 4 (b2a (unat b mod 16 * 4) # BASE64_PAD # cs) = (0, [b])"
    by (simp only: a2b_loop_step2 [OF sextet_bounds(6)] quad_arith(8) a2b_loop_pad3 prod.case
        byte_of_unat)
  have 2: "a2b_loop 1 (unat a div 4) 6 (b2a (unat a mod 4 * 16 + unat b div 16) #
      b2a (unat b mod 16 * 4) # BASE64_PAD # cs) = (0, [a, b])"
    by (simp only: a2b_loop_step1 [OF sextet_bounds(2)] quad_arith(1,2) 3 prod.case
        byte_of_unat)
  show ?thesis
    by (simp only: a2b_loop_step0 [OF sextet_bounds(1)] 2)
qed

lemma a2b_loop_b64encode_append:
  "a2b_loop 0 0 0 cs = (0, []) \<Longrightarrow> a2b_loop 0 0 0 (b64encode bs @ cs) = (0, bs)"
proof (induction bs rule: b64encode.induct)
  case 1
  then show ?case by simp
next
  case (2 a)
  show ?case by (simp only: b64encode.simps append.simps a2b_loop_single)
next
  case (3 a b)
  show ?case by (simp only: b64encode.simps append.simps a2b_loop_pair)
next
  case (4 a b c rest)
  show ?case
    by (simp only: b64encode.simps append.simps a2b_loop_quad "4.IH" [OF "4.prems"] prod.case)
qed

lemma a2b_loop_b64encode: "a2b_loop 0 0 0 (b64encode bs) = (0, bs)"
  using a2b_loop_b64encode_append [of "[]" bs] by simp

lemma b64encode_ascii: "c \<in> set (b64encode bs) \<Longrightarrow> of_char c < (128 :: nat)"
proof (induction bs rule: b64encode.induct)
  case 1
  then show ?case by simp
next
  case (2 a)
  from 2 show ?case by (auto simp: b2a_ascii sextet_bounds BASE64_PAD_def)
next
  case (3 a b)
  from 3 show ?case by (auto simp: b2a_ascii sextet_bounds BASE64_PAD_def)
next
  case (4 a b c rest)
  from 4 show ?case by (auto simp: b2a_ascii sextet_bounds)
qed

lemma b64decode_b64encode: "b64decode (b64encode bs) = Inr bs"
proof -
  have "\<not> (\<exists>c \<in> set (b64encode bs). of_char c \<ge> (128 :: nat))"
    using b64encode_ascii [of _ bs] by (auto simp: not_le)
  then show ?thesis
    by (simp add: b64decode_def a2b_base64_def a2b_loop_b64encode)
qed

text \<open>
  The decoder skips a line feed, so a payload with one after it decodes to the same
  bytes, and is not what the encoder gives back.
\<close>

lemma b64decode_trailing_newline: "b64decode (b64encode bs @ [CHR 0x0A]) = Inr bs"
proof -
  have nl: "a2b_loop 0 0 0 [CHR 0x0A] = (0, [])"
    by (simp add: BASE64_PAD_def table_a2b_base64_def table_b2a_base64_def)
  have "\<not> (\<exists>c \<in> set (b64encode bs @ [CHR 0x0A]). of_char c \<ge> (128 :: nat))"
    using b64encode_ascii [of _ bs] by (auto simp: not_le)
  then show ?thesis
    by (simp add: b64decode_def a2b_base64_def a2b_loop_b64encode_append [OF nl] del: set_append)
qed


subsection \<open>The image field\<close>

text \<open>
  A split has at least one piece, so that taking the last piece (\<open>[-1]\<close>) is
  defined. A string without the separator is split into one piece.
\<close>

lemma split_from_not_Nil: "split_from sep cur s \<noteq> []"
  by (induction s arbitrary: cur) auto

lemma str_split_not_Nil: "str_split s sep \<noteq> []"
  by (simp add: str_split_def split_from_not_Nil)

lemma split_from_no_sep:
  "\<forall>n. take (length sep) (drop n s) \<noteq> sep \<Longrightarrow> split_from sep cur s = [rev cur @ s]"
proof (induction s arbitrary: cur)
  case Nil
  then show ?case by simp
next
  case (Cons c cs)
  from Cons.prems have h: "take (length sep) (c # cs) \<noteq> sep"
    by (metis drop0)
  have "\<forall>n. take (length sep) (drop n cs) \<noteq> sep"
  proof
    fix n
    from Cons.prems have "take (length sep) (drop (Suc n) (c # cs)) \<noteq> sep" by blast
    then show "take (length sep) (drop n cs) \<noteq> sep" by simp
  qed
  from Cons.IH [OF this, of "c # cur"] h show ?case by simp
qed

lemma str_split_no_sep:
  "\<forall>n. take (length sep) (drop n s) \<noteq> sep \<Longrightarrow> str_split s sep = [s]"
  by (simp add: str_split_def split_from_no_sep)

lemma b64decode_error: "b64decode s = Inl e \<Longrightarrow> e = ValueError \<or> e = BinasciiError"
  by (auto simp: b64decode_def a2b_base64_def split: if_splits prod.splits)

text \<open>
  C8 as stated: for every data-URL image string that the field decodes, encoding the
  decoded bytes gives the payload back. The decoder drops the bits left over in the
  last group and skips characters outside the alphabet, so it accepts payloads that
  no encoder writes: \<open>QR==\<close> decodes to the byte 65, whose encoding is \<open>QQ==\<close>.
\<close>

theorem noncanonical_payload_counterexample:
  "Base64ImageField_decode (Str ''data:image/png;base64,QR=='')
     = Inr (File \<lparr>cf_name = ''img.png'', cf_content = [65]\<rparr>) \<and>
   b64encode [65] = ''QQ=='' \<and> ''QQ=='' \<noteq> ''QR==''"
  by code_simp

text \<open>
  C8, amended: for every data-URL image string whose payload is the base64 encoding
  of a byte string (the canonical payload: what the standard encoder writes), the
  field decodes the payload to that byte string, and encoding the decoded bytes gives
  the payload back.
\<close>

theorem canonical_payload_roundtrip:
  assumes "startswith s ''data:image''"
    and "str_split s '';base64,'' = [img_format, b64encode content]"
  shows "\<exists>f. Base64ImageField_decode (Str s) = Inr (File f) \<and> cf_content f = content \<and>
           b64encode (cf_content f) = b64encode content"
  using assms by (simp add: Base64ImageField_decode_def b64decode_b64encode)

theorem canonical_payload_roundtrip_witness:
  "startswith ''data:image/png;base64,QUJD'' ''data:image'' \<and>
   str_split ''data:image/png;base64,QUJD'' '';base64,'' = [''data:image/png'', b64encode [65, 66, 67]] \<and>
   (\<exists>f. Base64ImageField_decode (Str ''data:image/png;base64,QUJD'') = Inr (File f) \<and>
      cf_content f = [65, 66, 67] \<and> b64encode (cf_content f) = ''QUJD'')"
proof -
  have 1: "startswith ''data:image/png;base64,QUJD'' ''data:image''" by code_simp
  have 2: "str_split ''data:image/png;base64,QUJD'' '';base64,'' = [''data:image/png'', b64encode [65, 66, 67]]"
    by code_simp
  have 3: "b64encode [65, 66, 67] = ''QUJD''" by code_simp
  from canonical_payload_roundtrip [OF 1 2] 1 2 3 show ?thesis by simp
qed

text \<open>
  C3 as stated: a string that begins with the marker and has no delimiter, or a
  payload that is not base64, fails with a field-level validation error. The
  unpacking of the split and the decoder raise ValueError and \<open>binascii.Error\<close>,
  which nothing in the field turns into a ValidationError.
\<close>

theorem missing_delimiter_counterexample:
  "Base64ImageField_to_internal_value (\<lambda>f. True) (Str ''data:image/png,QUJD'') = Inl ValueError \<and>
   \<not> is_ValidationError ValueError \<and>
   Base64ImageField_to_internal_value (\<lambda>f. True) (Str ''data:image/png;base64,Q'') = Inl BinasciiError \<and>
   \<not> is_ValidationError BinasciiError"
  by code_simp

text \<open>
  C3, amended: for every string that begins with the data-URL image marker, the field
  raises ValueError when the delimiter \<open>;base64,\<close> is missing (more generally, when
  the split has not exactly two pieces), and raises the decoder's own error
  (\<open>binascii.Error\<close> or ValueError, not a ValidationError) when the decoder rejects
  the payload; in both cases no value is returned, so the image is not dropped
  silently. Input that is not a string bypasses the decoding and goes unchanged to the
  base image field.
\<close>

theorem data_url_decode_failures:
  "(startswith s ''data:image'' \<and> (\<forall>n. take (length '';base64,'') (drop n s) \<noteq> '';base64,'')
      \<longrightarrow> Base64ImageField_to_internal_value image_ok (Str s) = Inl ValueError) \<and>
   (startswith s ''data:image'' \<and> length (str_split s '';base64,'') \<noteq> 2
      \<longrightarrow> Base64ImageField_to_internal_value image_ok (Str s) = Inl ValueError) \<and>
   (startswith s ''data:image'' \<and> str_split s '';base64,'' = [img_format, img_str]
      \<and> b64decode img_str = Inl e
      \<longrightarrow> Base64ImageField_to_internal_value image_ok (Str s) = Inl e \<and> \<not> is_ValidationError e) \<and>
   Base64ImageField_decode (File f) = Inr (File f) \<and>
   Base64ImageField_decode Other = Inr Other \<and>
   Base64ImageField_to_internal_value image_ok (File f) = ImageField_to_internal_value image_ok (File f)"
proof (intro conjI impI)
  assume "startswith s ''data:image'' \<and> (\<forall>n. take (length '';base64,'') (drop n s) \<noteq> '';base64,'')"
  then have "startswith s ''data:image''" and "str_split s '';base64,'' = [s]"
    using str_split_no_sep [of "'';base64,''" s] by simp_all
  then show "Base64ImageField_to_internal_value image_ok (Str s) = Inl ValueError"
    by (simp add: Base64ImageField_to_internal_value_def Base64ImageField_decode_def)
next
  assume "startswith s ''data:image'' \<and> length (str_split s '';base64,'') \<noteq> 2"
  then show "Base64ImageField_to_internal_value image_ok (Str s) = Inl ValueError"
    by (auto simp: Base64ImageField_to_internal_value_def Base64ImageField_decode_def
        split: list.splits)
next
  assume a: "startswith s ''data:image'' \<and> str_split s '';base64,'' = [img_format, img_str]
      \<and> b64decode img_str = Inl e"
  then show "Base64ImageField_to_internal_value image_ok (Str s) = Inl e"
    by (simp add: Base64ImageField_to_internal_value_def Base64ImageField_decode_def)
  from a b64decode_error [of img_str e] show "\<not> is_ValidationError e" by auto
qed (simp_all add: Base64ImageField_to_internal_value_def Base64ImageField_decode_def)

theorem data_url_decode_failures_witness:
  "(startswith ''data:image/png,QUJD'' ''data:image'' \<and>
      (\<forall>n. take (length '';base64,'') (drop n ''data:image/png,QUJD'') \<noteq> '';base64,'')) \<and>
   length (str_split ''data:image/png,QUJD'' '';base64,'') \<noteq> 2 \<and>
   Base64ImageField_to_internal_value (\<lambda>f. True) (Str ''data:image/png,QUJD'') = Inl ValueError \<and>
   (startswith ''data:image/png;base64,Q'' ''data:image'' \<and>
      str_split ''data:image/png;base64,Q'' '';base64,'' = [''data:image/png'', ''Q''] \<and>
      b64decode ''Q'' = Inl BinasciiError) \<and>
   Base64ImageField_to_internal_value (\<lambda>f. True) (Str ''data:image/png;base64,Q'') = Inl BinasciiError"
proof -
  have s: "startswith ''data:image/png,QUJD'' ''data:image''" by code_simp
  have n: "take (length '';base64,'') (drop n ''data:image/png,QUJD'') \<noteq> '';base64,''" for n
  proof
    assume "take (length '';base64,'') (drop n ''data:image/png,QUJD'') = '';base64,''"
    then have "CHR '';'' \<in> set (take (length '';base64,'') (drop n ''data:image/png,QUJD''))"
      by simp
    then have "CHR '';'' \<in> set ''data:image/png,QUJD''"
      by (meson in_set_takeD in_set_dropD)
    then show False by simp
  qed
  have l: "length (str_split ''data:image/png,QUJD'' '';base64,'') \<noteq> 2" by code_simp
  have h2: "startswith ''data:image/png;base64,Q'' ''data:image'' \<and>
      str_split ''data:image/png;base64,Q'' '';base64,'' = [''data:image/png'', ''Q''] \<and>
      b64decode ''Q'' = Inl BinasciiError"
    by code_simp
  from data_url_decode_failures [of "''data:image/png,QUJD''" "\<lambda>f. True"] s n
  have 1: "Base64ImageField_to_internal_value (\<lambda>f. True) (Str ''data:image/png,QUJD'') = Inl ValueError"
    by blast
  from data_url_decode_failures [of "''data:image/png;base64,Q''" "\<lambda>f. True" "''data:image/png''" "''Q''" BinasciiError] h2
  have 2: "Base64ImageField_to_internal_value (\<lambda>f. True) (Str ''data:image/png;base64,Q'') = Inl BinasciiError"
    by blast
  from s n l h2 1 2 show ?thesis by blast
qed

subsection \<open>The recipes of a subscription\<close>

text \<open>
  The result of \<open>int\<close> is never None, so the branch that returns all recipes is never
  taken: whenever the representation is built, the recipes are the first \<open>n\<close> of
  the user, where \<open>n\<close> is the limit, 0 when the context has none.
\<close>

lemma subscription_limit_cases:
  assumes "SubscriptionSerializer_to_representation str_to_int ctx d u = Inr rep"
    and "py_int str_to_int (case ctx_recipes_limit ctx of None \<Rightarrow> CInt 0 | Some v \<Rightarrow> v) = Inr n"
  shows "0 \<le> n \<and> s_recipes rep = map RecipeMinifiedSerializer (take (nat n) (user_recipes d u))"
  using assms
  by (auto simp: SubscriptionSerializer_to_representation_def queryset_slice_def split: if_splits)

text \<open>
  C1: with no limit in the context, all the recipes of the followee are returned.
  Evaluated on a followee with two recipes and a context without \<open>recipes_limit\<close>,
  the representation has no recipe at all.
\<close>

theorem subscription_unset_limit_no_recipes:
  "SubscriptionSerializer_to_representation (\<lambda>s. None)
     \<lparr>ctx_request = None, ctx_recipes_limit = None\<rparr>
     \<lparr>recipes =
        [\<lparr>r_id = 1, r_name = ''soup'', cooking_time = 10, r_text = ''boil'', r_tags = [],
           r_image = \<lparr>cf_name = ''a.png'', cf_content = [1]\<rparr>, pub_date = None,
           author = Some \<lparr>pk = 7, email = ''f@x.org'', username = ''f'', first_name = ''F'',
             last_name = ''G'', recipes_count = None, is_subscribed_attr = None\<rparr>\<rparr>,
         \<lparr>r_id = 2, r_name = ''stew'', cooking_time = 90, r_text = ''simmer'', r_tags = [],
           r_image = \<lparr>cf_name = ''b.png'', cf_content = [2]\<rparr>, pub_date = None,
           author = Some \<lparr>pk = 7, email = ''f@x.org'', username = ''f'', first_name = ''F'',
             last_name = ''G'', recipes_count = None, is_subscribed_attr = None\<rparr>\<rparr>],
      recipe_seq = 3, recipe_ingredients = [], ingredient_table = [], tag_table = [],
      subscriptions = [(1, 7)]\<rparr>
     \<lparr>pk = 7, email = ''f@x.org'', username = ''f'', first_name = ''F'', last_name = ''G'',
       recipes_count = None, is_subscribed_attr = None\<rparr>
   = Inr \<lparr>s_id = 7, s_email = ''f@x.org'', s_username = ''f'', s_first_name = ''F'',
          s_last_name = ''G'', s_is_subscribed = True, s_recipes = []\<rparr>"
  by (simp add: SubscriptionSerializer_to_representation_def queryset_slice_def)

subsection \<open>Sign-up\<close>

lemma map_of_dict_pop: "map_of (dict_pop k kvs) k = None"
  by (induction kvs) (auto simp: dict_pop_def)

lemma create_user_writes:
  "ModelSerializer_create_user ok vd st = (res, st') \<Longrightarrow>
     (\<exists>inst. res = Inr inst \<and> ui_attrs inst = vd \<and> user_writes st' = user_writes st @ [inst]) \<or>
     (res = Inl IntegrityError \<and> st' = st)"
  by (auto simp: ModelSerializer_create_user_def Let_def split: if_splits)

lemma signup_representation_fields:
  "map fst (CustomUserSignUpSerializer_to_representation inst) =
     [''id'', ''email'', ''username'', ''first_name'', ''last_name'']"
  by (simp add: CustomUserSignUpSerializer_to_representation_def signup_fields_def)

text \<open>
  C4: when the validated data has a password \<open>p\<close>, every row image that \<open>create\<close>
  writes to the user table either has no password column set (the create of the base
  class, which runs on the data without the password) or has the hash
  \<open>make_password p\<close>; none has \<open>p\<close> itself, as long as the hash of \<open>p\<close> is not
  \<open>p\<close>. The instance returned, which is the last row written, has the hash, and the
  output representation has no \<open>password\<close> field.
\<close>

theorem signup_never_plaintext:
  assumes "map_of validated_data ''password'' = Some p"
    and "CustomUserSignUpSerializer_create make_password user_insert_ok validated_data st = (res, st')"
  shows "(\<exists>new. user_writes st' = user_writes st @ new \<and>
            (\<forall>row \<in> set new. map_of (ui_attrs row) ''password'' = None
               \<or> map_of (ui_attrs row) ''password'' = Some (make_password p)) \<and>
            (make_password p \<noteq> p \<longrightarrow>
               (\<forall>row \<in> set new. map_of (ui_attrs row) ''password'' \<noteq> Some p))) \<and>
         (\<forall>inst. res = Inr inst \<longrightarrow>
            map_of (ui_attrs inst) ''password'' = Some (make_password p) \<and>
            last (user_writes st') = inst \<and>
            ''password'' \<notin> set (map fst (CustomUserSignUpSerializer_to_representation inst)))"
proof -
  obtain r1 st1 where
    c: "ModelSerializer_create_user user_insert_ok (dict_pop ''password'' validated_data) st = (r1, st1)"
    by (cases "ModelSerializer_create_user user_insert_ok (dict_pop ''password'' validated_data) st")
  from create_user_writes [OF c] assms c
  have 1: "\<exists>new. user_writes st' = user_writes st @ new \<and>
            (\<forall>row \<in> set new. map_of (ui_attrs row) ''password'' = None
               \<or> map_of (ui_attrs row) ''password'' = Some (make_password p))"
    by (auto simp: CustomUserSignUpSerializer_create_def Let_def set_password_def save_user_def
        map_of_dict_pop)
  then obtain new where new: "user_writes st' = user_writes st @ new"
      "\<forall>row \<in> set new. map_of (ui_attrs row) ''password'' = None
               \<or> map_of (ui_attrs row) ''password'' = Some (make_password p)"
    by blast
  have 2: "make_password p \<noteq> p \<longrightarrow>
      (\<forall>row \<in> set new. map_of (ui_attrs row) ''password'' \<noteq> Some p)"
    using new(2) by auto
  from create_user_writes [OF c] assms c
  have 3: "\<forall>inst. res = Inr inst \<longrightarrow>
            map_of (ui_attrs inst) ''password'' = Some (make_password p) \<and>
            last (user_writes st') = inst"
    by (auto simp: CustomUserSignUpSerializer_create_def Let_def set_password_def save_user_def)
  from new 2 3 show ?thesis
    by (auto simp: signup_representation_fields)
qed

theorem signup_never_plaintext_witness:
  "map_of [(''email'', ''a@x.org''), (''username'', ''a''), (''password'', ''p@ss'')] ''password'' = Some ''p@ss'' \<and>
   CustomUserSignUpSerializer_create (\<lambda>raw. ''pbkdf2_sha256$'' @ raw) (\<lambda>st row. True)
      [(''email'', ''a@x.org''), (''username'', ''a''), (''password'', ''p@ss'')]
      \<lparr>user_seq = 1, user_writes = []\<rparr>
    = (Inr \<lparr>ui_pk = 1, ui_attrs = [(''password'', ''pbkdf2_sha256$p@ss''), (''email'', ''a@x.org''),
        (''username'', ''a'')]\<rparr>,
       \<lparr>user_seq = 2, user_writes = [\<lparr>ui_pk = 1, ui_attrs = [(''email'', ''a@x.org''), (''username'', ''a'')]\<rparr>,
        \<lparr>ui_pk = 1, ui_attrs = [(''password'', ''pbkdf2_sha256$p@ss''), (''email'', ''a@x.org''),
        (''username'', ''a'')]\<rparr>]\<rparr>) \<and>
   list_all (\<lambda>row. map_of (ui_attrs row) ''password'' \<noteq> Some ''p@ss'')
     (user_writes
       \<lparr>user_seq = 2, user_writes = [\<lparr>ui_pk = 1, ui_attrs = [(''email'', ''a@x.org''), (''username'', ''a'')]\<rparr>,
        \<lparr>ui_pk = 1, ui_attrs = [(''password'', ''pbkdf2_sha256$p@ss''), (''email'', ''a@x.org''),
        (''username'', ''a'')]\<rparr>]\<rparr>) \<and>
   ''password'' \<notin> set (map fst (CustomUserSignUpSerializer_to_representation
       \<lparr>ui_pk = 1, ui_attrs = [(''password'', ''pbkdf2_sha256$p@ss''), (''email'', ''a@x.org''),
        (''username'', ''a'')]\<rparr>))"
proof -
  have h1: "map_of [(''email'', ''a@x.org''), (''username'', ''a''), (''password'', ''p@ss'')] ''password'' = Some ''p@ss''"
    by simp
  have h2: "CustomUserSignUpSerializer_create (\<lambda>raw. ''pbkdf2_sha256$'' @ raw) (\<lambda>st row. True)
      [(''email'', ''a@x.org''), (''username'', ''a''), (''password'', ''p@ss'')]
      \<lparr>user_seq = 1, user_writes = []\<rparr>
    = (Inr \<lparr>ui_pk = 1, ui_attrs = [(''password'', ''pbkdf2_sha256$p@ss''), (''email'', ''a@x.org''),
        (''username'', ''a'')]\<rparr>,
       \<lparr>user_seq = 2, user_writes = [\<lparr>ui_pk = 1, ui_attrs = [(''email'', ''a@x.org''), (''username'', ''a'')]\<rparr>,
        \<lparr>ui_pk = 1, ui_attrs = [(''password'', ''pbkdf2_sha256$p@ss''), (''email'', ''a@x.org''),
        (''username'', ''a'')]\<rparr>]\<rparr>)"
    by (simp add: CustomUserSignUpSerializer_create_def ModelSerializer_create_user_def
        set_password_def save_user_def dict_pop_def Let_def)
  from signup_never_plaintext [OF h1 h2]
  have "list_all (\<lambda>row. map_of (ui_attrs row) ''password'' \<noteq> Some ''p@ss'')
     (user_writes
       \<lparr>user_seq = 2, user_writes = [\<lparr>ui_pk = 1, ui_attrs = [(''email'', ''a@x.org''), (''username'', ''a'')]\<rparr>,
        \<lparr>ui_pk = 1, ui_attrs = [(''password'', ''pbkdf2_sha256$p@ss''), (''email'', ''a@x.org''),
        (''username'', ''a'')]\<rparr>]\<rparr>) \<and>
   ''password'' \<notin> set (map fst (CustomUserSignUpSerializer_to_representation
       \<lparr>ui_pk = 1, ui_attrs = [(''password'', ''pbkdf2_sha256$p@ss''), (''email'', ''a@x.org''),
        (''username'', ''a'')]\<rparr>))"
    by (simp add: list_all_iff)
  with h1 h2 show ?thesis by blast
qed

subsection \<open>Creating a recipe\<close>

lemma save_ingredients_ok:
  "save_ingredients sch inst ds d = (None, d') \<Longrightarrow>
     \<exists>new. recipe_ingredients d' = recipe_ingredients d @ new \<and>
       map ri_recipe new = replicate (length ds) (r_id inst) \<and>
       map ri_ingredient new = map d_ingredient ds \<and>
       map (\<lambda>row. Some (ri_amount row)) new = map d_amount ds"
proof (induction ds arbitrary: d)
  case Nil
  then show ?case by simp
next
  case (Cons x xs)
  from Cons.prems obtain a where a: "d_amount x = Some a"
    by (cases "d_amount x") auto
  let ?row = "\<lparr>ri_recipe = r_id inst, ri_ingredient = d_ingredient x, ri_amount = a\<rparr>"
  let ?d1 = "d\<lparr>recipe_ingredients := recipe_ingredients d @ [?row]\<rparr>"
  from Cons.prems a have ok: "line_insert_ok sch d ?row"
    and rest: "save_ingredients sch inst xs ?d1 = (None, d')"
    by (auto simp: Let_def split: if_splits)
  from Cons.IH [OF rest] obtain new where
    new: "recipe_ingredients d' = recipe_ingredients ?d1 @ new"
      "map ri_recipe new = replicate (length xs) (r_id inst)"
      "map ri_ingredient new = map d_ingredient xs"
      "map (\<lambda>row. Some (ri_amount row)) new = map d_amount xs"
    by blast
  show ?case
    by (rule exI [of _ "?row # new"]) (use new a in simp)
qed

lemma save_ingredients_recipes:
  "save_ingredients sch inst ds d = (r, d') \<Longrightarrow> recipes d' = recipes d \<and> recipe_seq d' = recipe_seq d"
proof (induction ds arbitrary: d)
  case Nil
  then show ?case by simp
next
  case (Cons x xs)
  show ?case
  proof (cases "d_amount x")
    case None
    with Cons.prems show ?thesis by simp
  next
    case (Some a)
    let ?row = "\<lparr>ri_recipe = r_id inst, ri_ingredient = d_ingredient x, ri_amount = a\<rparr>"
    show ?thesis
    proof (cases "line_insert_ok sch d ?row")
      case True
      with Cons.prems Some
      have "save_ingredients sch inst xs (d\<lparr>recipe_ingredients := recipe_ingredients d @ [?row]\<rparr>) = (r, d')"
        by (simp add: Let_def)
      from Cons.IH [OF this] show ?thesis by simp
    next
      case False
      with Cons.prems Some show ?thesis by (simp add: Let_def)
    qed
  qed
qed

lemma create_Inr:
  assumes "RecipeCreateSerializer_create sch ctx validated d = (Inr instance, d')"
  shows "\<exists>ds d1. vd_ingredients validated = Some ds \<and>
      ModelSerializer_create sch (validated\<lparr>vd_ingredients := None\<rparr>) d = (Inr instance, d1) \<and>
      save_ingredients sch instance ds d1 = (None, d')"
  using assms
  by (auto simp: RecipeCreateSerializer_create_def Let_def
      split: option.splits prod.splits sum.splits)

lemma model_create_Inr:
  assumes "ModelSerializer_create sch validated d = (Inr instance, d1)"
  shows "r_id instance = recipe_seq d" "author instance = vd_author validated"
    "recipe_ingredients d1 = recipe_ingredients d" "recipes d1 = recipes d @ [instance]"
  using assms by (auto simp: ModelSerializer_create_def Let_def split: if_splits)

lemma create_author:
  assumes "RecipeCreateSerializer_create sch ctx validated d = (Inr instance, d')"
  shows "author instance = vd_author validated"
proof -
  from create_Inr [OF assms] obtain d1 where
    "ModelSerializer_create sch (validated\<lparr>vd_ingredients := None\<rparr>) d = (Inr instance, d1)"
    by blast
  from model_create_Inr(2) [OF this] show ?thesis by simp
qed

lemma create_lines:
  assumes "RecipeCreateSerializer_create sch ctx validated d = (Inr instance, d')"
    and "vd_ingredients validated = Some ds"
  shows "r_id instance = recipe_seq d \<and>
     (\<exists>new. recipe_ingredients d' = recipe_ingredients d @ new \<and>
       map ri_recipe new = replicate (length ds) (r_id instance) \<and>
       map ri_ingredient new = map d_ingredient ds \<and>
       map (\<lambda>row. Some (ri_amount row)) new = map d_amount ds)"
proof -
  from create_Inr [OF assms(1)] assms(2) obtain d1 where
    m: "ModelSerializer_create sch (validated\<lparr>vd_ingredients := None\<rparr>) d = (Inr instance, d1)"
    and s: "save_ingredients sch instance ds d1 = (None, d')"
    by auto
  from save_ingredients_ok [OF s] model_create_Inr(1,3) [OF m] show ?thesis by simp
qed

lemma recipe_lines_new:
  assumes "recipe_ingredients d' = recipe_ingredients d @ new"
    and "map ri_recipe new = replicate n (r_id instance)"
    and "\<forall>row \<in> set (recipe_ingredients d). ri_recipe row \<noteq> r_id instance"
  shows "recipe_lines d' instance = new"
proof -
  have "filter (\<lambda>row. ri_recipe row = r_id instance) (recipe_ingredients d) = []"
    using assms(3) by (simp add: filter_empty_conv)
  moreover have "\<forall>row \<in> set new. ri_recipe row = r_id instance"
  proof
    fix row assume "row \<in> set new"
    then have "ri_recipe row \<in> set (map ri_recipe new)" by simp
    with assms(2) show "ri_recipe row = r_id instance" by simp
  qed
  then have "filter (\<lambda>row. ri_recipe row = r_id instance) new = new"
    by (simp add: filter_id_conv)
  ultimately show ?thesis using assms(1) by (simp add: recipe_lines_def)
qed

lemma representation_ingredients:
  "RecipeSerializer_to_representation ctx d instance = Inr rep \<Longrightarrow>
     rr_ingredients rep = map RecipeIngredientSerializer (recipe_lines d instance)"
  by (auto simp: RecipeSerializer_to_representation_def split: option.splits sum.splits)

lemma all_valid_Some:
  "all_valid (map f es) = Some ds \<Longrightarrow> map Inr ds = map f es"
proof (induction es arbitrary: ds)
  case Nil
  then show ?case by simp
next
  case (Cons e es)
  then show ?case by (cases "f e") auto
qed

lemma all_valid_None:
  "f e = Inl err \<Longrightarrow> e \<in> set es \<Longrightarrow> all_valid (map f es) = None"
proof (induction es)
  case Nil
  then show ?case by simp
next
  case (Cons x xs)
  then show ?case by (cases "f x") auto
qed

lemma find_ingredient:
  "PrimaryKeyRelatedField_ingredient tbl key = Inr i \<Longrightarrow> ing_id i = key \<and> i \<in> set tbl"
  by (auto simp: PrimaryKeyRelatedField_ingredient_def find_Some_iff split: option.splits)

lemma missing_ingredient:
  "\<forall>i \<in> set tbl. ing_id i \<noteq> key \<Longrightarrow>
     PrimaryKeyRelatedField_ingredient tbl key = Inl (ValidationError [''does_not_exist''])"
  by (auto simp: PrimaryKeyRelatedField_ingredient_def find_None_iff split: option.splits)

lemma entry_valid:
  "RecipeIngredientCreateSerializer_to_internal_value sch tbl e = Inr x \<Longrightarrow>
     ing_id (d_ingredient x) = pi_id e \<and> d_amount x = pi_amount e \<and> d_ingredient x \<in> set tbl"
  by (auto simp: RecipeIngredientCreateSerializer_to_internal_value_def amount_field_def
      dest: find_ingredient split: sum.splits option.splits if_splits)

lemma entry_missing:
  "\<forall>i \<in> set tbl. ing_id i \<noteq> pi_id e \<Longrightarrow>
     \<exists>err. RecipeIngredientCreateSerializer_to_internal_value sch tbl e = Inl err"
  by (auto simp: RecipeIngredientCreateSerializer_to_internal_value_def missing_ingredient
      split: sum.splits)

lemma entries_valid:
  assumes "all_valid (map (RecipeIngredientCreateSerializer_to_internal_value sch tbl) es) = Some ds"
  shows "map (\<lambda>x. ing_id (d_ingredient x)) ds = map pi_id es \<and> map d_amount ds = map pi_amount es"
  using assms
proof (induction es arbitrary: ds)
  case Nil
  then show ?case by simp
next
  case (Cons e es)
  then show ?case
    by (cases "RecipeIngredientCreateSerializer_to_internal_value sch tbl e")
       (auto dest: entry_valid)
qed

lemma run_validation_Inr:
  assumes "RecipeCreateSerializer_run_validation sch image_ok d p = Inr validated"
  shows "\<exists>ds. vd_ingredients validated = Some ds \<and>
     all_valid (map (RecipeIngredientCreateSerializer_to_internal_value sch (ingredient_table d))
        (p_ingredients p)) = Some ds"
  using assms
  by (auto simp: RecipeCreateSerializer_run_validation_def Let_def
      split: sum.splits option.splits if_splits)

lemma run_validation_missing:
  assumes "e \<in> set (p_ingredients p)" and "\<forall>i \<in> set (ingredient_table d). ing_id i \<noteq> pi_id e"
  shows "\<exists>fields. RecipeCreateSerializer_run_validation sch image_ok d p = Inl (ValidationError fields) \<and>
     ''ingredients'' \<in> set fields"
proof -
  from entry_missing [OF assms(2)] obtain err where
    "RecipeIngredientCreateSerializer_to_internal_value sch (ingredient_table d) e = Inl err"
    by blast
  from all_valid_None [of "RecipeIngredientCreateSerializer_to_internal_value sch (ingredient_table d)" e err
      "p_ingredients p", OF this assms(1)]
  have n: "all_valid (map (RecipeIngredientCreateSerializer_to_internal_value sch (ingredient_table d))
        (p_ingredients p)) = None" .
  show ?thesis
    by (cases "ImageField_to_internal_value image_ok (p_image p)")
       (simp_all add: RecipeCreateSerializer_run_validation_def Let_def n split: option.splits)
qed

text \<open>Validation passes on a payload whose fields are all valid.\<close>

lemma all_valid_exists:
  "\<forall>e \<in> set es. \<exists>x. f e = Inr x \<Longrightarrow> \<exists>ds. all_valid (map f es) = Some ds"
proof (induction es)
  case Nil
  then show ?case by simp
next
  case (Cons e es)
  then obtain x ds where "f e = Inr x" "all_valid (map f es) = Some ds"
    by auto
  then show ?case by simp
qed

lemma tag_found:
  "\<exists>x \<in> set tbl. tag_id x = t \<Longrightarrow> \<exists>x. PrimaryKeyRelatedField_tag tbl t = Inr x"
  by (cases "find (\<lambda>x. tag_id x = t) tbl")
     (auto simp: PrimaryKeyRelatedField_tag_def find_None_iff)

lemma ingredient_found:
  "\<exists>i \<in> set tbl. ing_id i = key \<Longrightarrow> \<exists>i. PrimaryKeyRelatedField_ingredient tbl key = Inr i"
  by (cases "find (\<lambda>i. ing_id i = key) tbl")
     (auto simp: PrimaryKeyRelatedField_ingredient_def find_None_iff)

lemma entry_accepted:
  assumes "\<exists>i \<in> set tbl. ing_id i = pi_id e" and "pi_amount e = Some n" and "amount_ok sch n"
  shows "\<exists>x. RecipeIngredientCreateSerializer_to_internal_value sch tbl e = Inr x"
proof -
  from ingredient_found [OF assms(1)] obtain i where
    "PrimaryKeyRelatedField_ingredient tbl (pi_id e) = Inr i" by blast
  with assms(2,3) show ?thesis
    by (simp add: RecipeIngredientCreateSerializer_to_internal_value_def amount_field_def)
qed

lemma run_validation_succeeds:
  assumes "scalar_errors sch p = []"
    and "\<forall>t \<in> set (p_tags p). \<exists>x \<in> set (tag_table d). tag_id x = t"
    and "\<forall>e \<in> set (p_ingredients p).
           (\<exists>i \<in> set (ingredient_table d). ing_id i = pi_id e) \<and>
           (\<exists>n. pi_amount e = Some n \<and> amount_ok sch n)"
    and "ImageField_to_internal_value image_ok (p_image p) = Inr f"
  shows "\<exists>validated. RecipeCreateSerializer_run_validation sch image_ok d p = Inr validated"
proof -
  have "\<forall>t \<in> set (p_tags p). \<exists>x. PrimaryKeyRelatedField_tag (tag_table d) t = Inr x"
    using assms(2) tag_found by blast
  from all_valid_exists [OF this] obtain ts where
    ts: "all_valid (map (PrimaryKeyRelatedField_tag (tag_table d)) (p_tags p)) = Some ts" by blast
  have "\<forall>e \<in> set (p_ingredients p).
      \<exists>x. RecipeIngredientCreateSerializer_to_internal_value sch (ingredient_table d) e = Inr x"
    using assms(3) entry_accepted by blast
  from all_valid_exists [OF this] obtain ds where
    ds: "all_valid (map (RecipeIngredientCreateSerializer_to_internal_value sch (ingredient_table d))
        (p_ingredients p)) = Some ds" by blast
  show ?thesis
    by (simp add: RecipeCreateSerializer_run_validation_def Let_def ts ds assms(1,4))
qed

text \<open>The loop saves every line when the table accepts them and each entry has an amount.\<close>

lemma save_ingredients_succeeds:
  assumes "\<forall>d1 row. line_insert_ok sch d1 row" and "\<forall>x \<in> set ds. d_amount x \<noteq> None"
  shows "\<exists>d'. save_ingredients sch inst ds d = (None, d')"
  using assms(2)
proof (induction ds arbitrary: d)
  case Nil
  then show ?case by simp
next
  case (Cons x xs)
  then obtain a where a: "d_amount x = Some a" by auto
  from Cons have "\<forall>y \<in> set xs. d_amount y \<noteq> None" by simp
  from Cons.IH [OF this] a assms(1) show ?case by (simp add: Let_def)
qed

lemma create_succeeds:
  assumes "ctx_request ctx \<noteq> None" and "vd_ingredients validated = Some ds"
    and "\<forall>d1 r. recipe_insert_ok sch d1 r" and "\<forall>d1 row. line_insert_ok sch d1 row"
    and "\<forall>x \<in> set ds. d_amount x \<noteq> None"
  shows "\<exists>instance d'. RecipeCreateSerializer_create sch ctx validated d = (Inr instance, d')"
proof -
  from assms(1) obtain request where r: "ctx_request ctx = Some request" by auto
  obtain inst d1 where
    m: "ModelSerializer_create sch (validated\<lparr>vd_ingredients := None\<rparr>) d = (Inr inst, d1)"
    using assms(3) by (simp add: ModelSerializer_create_def Let_def)
  from save_ingredients_succeeds [OF assms(4,5)] obtain d' where
    "save_ingredients sch inst ds d1 = (None, d')" by blast
  with r m assms(2) show ?thesis
    by (simp add: RecipeCreateSerializer_create_def Let_def)
qed

lemma save_succeeds:
  assumes "scalar_errors sch p = [] \<and>
        (\<forall>t \<in> set (p_tags p). \<exists>x \<in> set (tag_table d). tag_id x = t) \<and>
        (\<forall>e \<in> set (p_ingredients p).
           (\<exists>i \<in> set (ingredient_table d). ing_id i = pi_id e) \<and>
           (\<exists>n. pi_amount e = Some n \<and> amount_ok sch n)) \<and>
        (\<exists>f. ImageField_to_internal_value image_ok (p_image p) = Inr f) \<and>
        ctx_request ctx \<noteq> None \<and>
        (\<forall>d1 r. recipe_insert_ok sch d1 r) \<and> (\<forall>d1 row. line_insert_ok sch d1 row)"
  shows "\<exists>instance d'.
     RecipeCreateSerializer_save sch image_ok ctx kw_author p d = (Inr instance, d')"
proof -
  from assms obtain f where f: "ImageField_to_internal_value image_ok (p_image p) = Inr f"
    by blast
  from run_validation_succeeds [OF _ _ _ f, of sch d] assms obtain validated where
    v: "RecipeCreateSerializer_run_validation sch image_ok d p = Inr validated"
    by blast
  from run_validation_Inr [OF v] obtain ds where
    ds: "vd_ingredients validated = Some ds"
    and av: "all_valid (map (RecipeIngredientCreateSerializer_to_internal_value sch (ingredient_table d))
        (p_ingredients p)) = Some ds"
    by blast
  from entries_valid [OF av] have ams: "map d_amount ds = map pi_amount (p_ingredients p)"
    by simp
  have "\<forall>x \<in> set ds. d_amount x \<noteq> None"
  proof
    fix x assume "x \<in> set ds"
    then have "d_amount x \<in> set (map d_amount ds)" by simp
    with ams have "d_amount x \<in> set (map pi_amount (p_ingredients p))" by simp
    then obtain e where "e \<in> set (p_ingredients p)" "d_amount x = pi_amount e" by auto
    with assms show "d_amount x \<noteq> None" by auto
  qed
  from create_succeeds [of ctx "validated\<lparr>vd_author := kw_author\<rparr>" ds sch d, OF _ _ _ _ this]
    ds assms v
  show ?thesis by (simp add: RecipeCreateSerializer_save_def)
qed

lemma save_author:
  assumes "RecipeCreateSerializer_save sch image_ok ctx kw_author p d = (Inr instance, d')"
  shows "author instance = kw_author"
proof -
  from assms obtain validated where
    "RecipeCreateSerializer_create sch ctx (validated\<lparr>vd_author := kw_author\<rparr>) d = (Inr instance, d')"
    by (auto simp: RecipeCreateSerializer_save_def split: sum.splits)
  from create_author [OF this] show ?thesis by simp
qed

lemma render_without_author:
  "author instance = None \<Longrightarrow>
     \<exists>rep. RecipeSerializer_to_representation ctx d instance = Inr rep \<and> rr_author rep = None"
  by (simp add: RecipeSerializer_to_representation_def)


lemma save_lines:
  assumes "RecipeCreateSerializer_save sch image_ok ctx kw_author p d = (Inr instance, d')"
    and "\<forall>row \<in> set (recipe_ingredients d). ri_recipe row \<noteq> recipe_seq d"
  shows "(\<exists>new. recipe_ingredients d' = recipe_ingredients d @ new \<and>
          map ri_recipe new = replicate (length (p_ingredients p)) (r_id instance) \<and>
          map (\<lambda>row. ing_id (ri_ingredient row)) new = map pi_id (p_ingredients p) \<and>
          map (\<lambda>row. Some (ri_amount row)) new = map pi_amount (p_ingredients p) \<and>
          (\<forall>ctx' rep. RecipeSerializer_to_representation ctx' d' instance = Inr rep \<longrightarrow>
             length (rr_ingredients rep) = length (p_ingredients p) \<and>
             map ir_id (rr_ingredients rep) = map pi_id (p_ingredients p) \<and>
             map (\<lambda>line. Some (ir_amount line)) (rr_ingredients rep)
               = map pi_amount (p_ingredients p)))"
proof -
  from assms(1) obtain validated where
    v: "RecipeCreateSerializer_run_validation sch image_ok d p = Inr validated"
    and c: "RecipeCreateSerializer_create sch ctx (validated\<lparr>vd_author := kw_author\<rparr>) d = (Inr instance, d')"
    by (auto simp: RecipeCreateSerializer_save_def split: sum.splits)
  from run_validation_Inr [OF v] obtain ds where
    ds: "vd_ingredients validated = Some ds"
    and av: "all_valid (map (RecipeIngredientCreateSerializer_to_internal_value sch (ingredient_table d))
        (p_ingredients p)) = Some ds"
    by blast
  from entries_valid [OF av]
  have ids: "map (\<lambda>x. ing_id (d_ingredient x)) ds = map pi_id (p_ingredients p)"
    and ams: "map d_amount ds = map pi_amount (p_ingredients p)"
    by simp_all
  from ids have len: "length ds = length (p_ingredients p)"
    using map_eq_imp_length_eq by fastforce
  from create_lines [OF c] ds obtain new where
    id: "r_id instance = recipe_seq d"
    and new: "recipe_ingredients d' = recipe_ingredients d @ new"
      "map ri_recipe new = replicate (length ds) (r_id instance)"
      "map ri_ingredient new = map d_ingredient ds"
      "map (\<lambda>row. Some (ri_amount row)) new = map d_amount ds"
    by auto
  have ing: "map (\<lambda>row. ing_id (ri_ingredient row)) new = map pi_id (p_ingredients p)"
  proof -
    have "map (\<lambda>row. ing_id (ri_ingredient row)) new = map ing_id (map ri_ingredient new)"
      by simp
    also have "\<dots> = map ing_id (map d_ingredient ds)" by (simp only: new(3))
    also have "\<dots> = map (\<lambda>x. ing_id (d_ingredient x)) ds" by simp
    also have "\<dots> = map pi_id (p_ingredients p)" by (rule ids)
    finally show ?thesis .
  qed
  have lines: "recipe_lines d' instance = new"
    using recipe_lines_new [OF new(1) new(2)] assms(2) id by simp
  have lnew: "length new = length (p_ingredients p)"
    using new(2) len by (metis length_map length_replicate)
  have rep: "length (rr_ingredients rep) = length (p_ingredients p) \<and>
         map ir_id (rr_ingredients rep) = map pi_id (p_ingredients p) \<and>
         map (\<lambda>line. Some (ir_amount line)) (rr_ingredients rep) = map pi_amount (p_ingredients p)"
    if "RecipeSerializer_to_representation ctx' d' instance = Inr rep" for ctx' rep
  proof -
    from representation_ingredients [OF that] lines
    have r: "rr_ingredients rep = map RecipeIngredientSerializer new" by simp
    have a: "map (\<lambda>line. Some (ir_amount line)) (map RecipeIngredientSerializer new)
        = map (\<lambda>row. Some (ri_amount row)) new"
      by (simp add: RecipeIngredientSerializer_def)
    have b: "map ir_id (map RecipeIngredientSerializer new)
        = map (\<lambda>row. ing_id (ri_ingredient row)) new"
      by (simp add: RecipeIngredientSerializer_def)
    show ?thesis unfolding r using a b ing new(4) ams lnew by simp
  qed
  show ?thesis
    by (rule exI [of _ new]) (use new len ing ams rep in simp)
qed

text \<open>
  C2: the author of the created recipe is the user of the request. \<open>create\<close> reads
  that user and does not use it: evaluated on a request of user 7 and validated data
  without an author keyword, the recipe is stored with no author.
\<close>

theorem create_ignores_request_user:
  "RecipeCreateSerializer_create
     \<lparr>recipe_insert_ok = (\<lambda>d r. True), line_insert_ok = (\<lambda>d row. True), amount_required = True,
      amount_ok = (\<lambda>n. 0 < n), scalar_errors = (\<lambda>p. [])\<rparr>
     \<lparr>ctx_request = Some \<lparr>query_params = [],
        req_user = AuthUser \<lparr>pk = 7, email = ''f@x.org'', username = ''f'', first_name = ''F'',
          last_name = ''G'', recipes_count = None, is_subscribed_attr = None\<rparr>\<rparr>,
      ctx_recipes_limit = None\<rparr>
     \<lparr>vd_name = ''soup'', vd_cooking_time = 10, vd_text = ''boil'', vd_tags = [],
      vd_ingredients = Some [], vd_image = \<lparr>cf_name = ''img.png'', cf_content = [1]\<rparr>,
      vd_pub_date = None, vd_author = None\<rparr>
     \<lparr>recipes = [], recipe_seq = 1, recipe_ingredients = [], ingredient_table = [],
      tag_table = [], subscriptions = []\<rparr>
   = (Inr \<lparr>r_id = 1, r_name = ''soup'', cooking_time = 10, r_text = ''boil'', r_tags = [],
           r_image = \<lparr>cf_name = ''img.png'', cf_content = [1]\<rparr>, pub_date = None,
           author = None\<rparr>,
      \<lparr>recipes = [\<lparr>r_id = 1, r_name = ''soup'', cooking_time = 10, r_text = ''boil'', r_tags = [],
           r_image = \<lparr>cf_name = ''img.png'', cf_content = [1]\<rparr>, pub_date = None,
           author = None\<rparr>],
       recipe_seq = 2, recipe_ingredients = [], ingredient_table = [],
       tag_table = [], subscriptions = []\<rparr>)"
  by (simp add: RecipeCreateSerializer_create_def ModelSerializer_create_def Let_def)

text \<open>Where the table requires an author, the same call fails and stores nothing.\<close>

lemma create_without_author_fails:
  "RecipeCreateSerializer_create
     \<lparr>recipe_insert_ok = (\<lambda>d r. author r \<noteq> None), line_insert_ok = (\<lambda>d row. True),
      amount_required = True, amount_ok = (\<lambda>n. 0 < n), scalar_errors = (\<lambda>p. [])\<rparr>
     \<lparr>ctx_request = Some \<lparr>query_params = [],
        req_user = AuthUser \<lparr>pk = 7, email = ''f@x.org'', username = ''f'', first_name = ''F'',
          last_name = ''G'', recipes_count = None, is_subscribed_attr = None\<rparr>\<rparr>,
      ctx_recipes_limit = None\<rparr>
     \<lparr>vd_name = ''soup'', vd_cooking_time = 10, vd_text = ''boil'', vd_tags = [],
      vd_ingredients = Some [], vd_image = \<lparr>cf_name = ''img.png'', cf_content = [1]\<rparr>,
      vd_pub_date = None, vd_author = None\<rparr>
     \<lparr>recipes = [], recipe_seq = 1, recipe_ingredients = [], ingredient_table = [],
      tag_table = [], subscriptions = []\<rparr>
   = (Inl IntegrityError,
      \<lparr>recipes = [], recipe_seq = 1, recipe_ingredients = [], ingredient_table = [],
       tag_table = [], subscriptions = []\<rparr>)"
  by (simp add: RecipeCreateSerializer_create_def ModelSerializer_create_def Let_def)

text \<open>
  C6: take a create request with \<open>N\<close> ingredient entries, on a database where no
  older ingredient line has the key that the new recipe gets. Whenever the request
  succeeds, the lines added to the table are \<open>N\<close>, one for each entry in the order
  of the input, each with the new recipe, the ingredient of the entry's id and the
  entry's amount; and every representation of the created recipe by the read
  serializer lists \<open>N\<close> ingredients with those ids and amounts in that order. And
  the request does succeed, with \<open>N\<close> more lines in the table, when every field of
  the payload is valid, every entry has an amount, the context has the request and
  the tables accept the rows; the response is then rendered, with the ingredients of
  the input, when no author keyword is passed to \<open>save\<close>.
\<close>

theorem create_request_lines:
  assumes "\<forall>row \<in> set (recipe_ingredients d). ri_recipe row \<noteq> recipe_seq d"
  shows "(\<forall>instance d'.
        RecipeCreateSerializer_save sch image_ok ctx kw_author p d = (Inr instance, d') \<longrightarrow>
        (\<exists>new. recipe_ingredients d' = recipe_ingredients d @ new \<and>
          map ri_recipe new = replicate (length (p_ingredients p)) (r_id instance) \<and>
          map (\<lambda>row. ing_id (ri_ingredient row)) new = map pi_id (p_ingredients p) \<and>
          map (\<lambda>row. Some (ri_amount row)) new = map pi_amount (p_ingredients p) \<and>
          (\<forall>ctx' rep. RecipeSerializer_to_representation ctx' d' instance = Inr rep \<longrightarrow>
             length (rr_ingredients rep) = length (p_ingredients p) \<and>
             map ir_id (rr_ingredients rep) = map pi_id (p_ingredients p) \<and>
             map (\<lambda>line. Some (ir_amount line)) (rr_ingredients rep)
               = map pi_amount (p_ingredients p)))) \<and>
     (scalar_errors sch p = [] \<and>
        (\<forall>t \<in> set (p_tags p). \<exists>x \<in> set (tag_table d). tag_id x = t) \<and>
        (\<forall>e \<in> set (p_ingredients p).
           (\<exists>i \<in> set (ingredient_table d). ing_id i = pi_id e) \<and>
           (\<exists>n. pi_amount e = Some n \<and> amount_ok sch n)) \<and>
        (\<exists>f. ImageField_to_internal_value image_ok (p_image p) = Inr f) \<and>
        ctx_request ctx \<noteq> None \<and>
        (\<forall>d1 r. recipe_insert_ok sch d1 r) \<and> (\<forall>d1 row. line_insert_ok sch d1 row) \<longrightarrow>
      (\<exists>instance d'.
         RecipeCreateSerializer_save sch image_ok ctx kw_author p d = (Inr instance, d') \<and>
         length (recipe_ingredients d') = length (recipe_ingredients d) + length (p_ingredients p) \<and>
         (kw_author = None \<longrightarrow>
            (\<exists>rep. RecipeCreateSerializer_to_representation d' instance = Inr rep \<and>
               map ir_id (rr_ingredients rep) = map pi_id (p_ingredients p) \<and>
               map (\<lambda>line. Some (ir_amount line)) (rr_ingredients rep)
                 = map pi_amount (p_ingredients p)))))"
proof (intro conjI allI impI)
  fix inst d'
  assume "RecipeCreateSerializer_save sch image_ok ctx kw_author p d = (Inr inst, d')"
  from save_lines [OF this assms] show "(\<exists>new. recipe_ingredients d' = recipe_ingredients d @ new \<and>
          map ri_recipe new = replicate (length (p_ingredients p)) (r_id inst) \<and>
          map (\<lambda>row. ing_id (ri_ingredient row)) new = map pi_id (p_ingredients p) \<and>
          map (\<lambda>row. Some (ri_amount row)) new = map pi_amount (p_ingredients p) \<and>
          (\<forall>ctx' rep. RecipeSerializer_to_representation ctx' d' inst = Inr rep \<longrightarrow>
             length (rr_ingredients rep) = length (p_ingredients p) \<and>
             map ir_id (rr_ingredients rep) = map pi_id (p_ingredients p) \<and>
             map (\<lambda>line. Some (ir_amount line)) (rr_ingredients rep)
               = map pi_amount (p_ingredients p)))" .
next
  assume acc: "scalar_errors sch p = [] \<and>
        (\<forall>t \<in> set (p_tags p). \<exists>x \<in> set (tag_table d). tag_id x = t) \<and>
        (\<forall>e \<in> set (p_ingredients p).
           (\<exists>i \<in> set (ingredient_table d). ing_id i = pi_id e) \<and>
           (\<exists>n. pi_amount e = Some n \<and> amount_ok sch n)) \<and>
        (\<exists>f. ImageField_to_internal_value image_ok (p_image p) = Inr f) \<and>
        ctx_request ctx \<noteq> None \<and>
        (\<forall>d1 r. recipe_insert_ok sch d1 r) \<and> (\<forall>d1 row. line_insert_ok sch d1 row)"
  from save_succeeds [OF acc] obtain inst d' where
    s: "RecipeCreateSerializer_save sch image_ok ctx kw_author p d = (Inr inst, d')"
    by blast
  from save_lines [OF s assms] obtain new where
    new: "recipe_ingredients d' = recipe_ingredients d @ new"
      "map ri_recipe new = replicate (length (p_ingredients p)) (r_id inst)"
    and rep: "\<forall>ctx' rep. RecipeSerializer_to_representation ctx' d' inst = Inr rep \<longrightarrow>
             length (rr_ingredients rep) = length (p_ingredients p) \<and>
             map ir_id (rr_ingredients rep) = map pi_id (p_ingredients p) \<and>
             map (\<lambda>line. Some (ir_amount line)) (rr_ingredients rep)
               = map pi_amount (p_ingredients p)"
    by blast
  from new(2) have "length new = length (p_ingredients p)"
    by (metis length_map length_replicate)
  with new(1) have len: "length (recipe_ingredients d')
      = length (recipe_ingredients d) + length (p_ingredients p)"
    by simp
  have resp: "\<exists>rep. RecipeCreateSerializer_to_representation d' inst = Inr rep \<and>
               map ir_id (rr_ingredients rep) = map pi_id (p_ingredients p) \<and>
               map (\<lambda>line. Some (ir_amount line)) (rr_ingredients rep)
                 = map pi_amount (p_ingredients p)"
    if "kw_author = None"
  proof -
    from save_author [OF s] that have "author inst = None" by simp
    from render_without_author [OF this, of empty_context d'] obtain r where
      r: "RecipeSerializer_to_representation empty_context d' inst = Inr r" by blast
    with rep show ?thesis
      by (auto simp: RecipeCreateSerializer_to_representation_def)
  qed
  from s len resp show "\<exists>instance d'.
         RecipeCreateSerializer_save sch image_ok ctx kw_author p d = (Inr instance, d') \<and>
         length (recipe_ingredients d') = length (recipe_ingredients d) + length (p_ingredients p) \<and>
         (kw_author = None \<longrightarrow>
            (\<exists>rep. RecipeCreateSerializer_to_representation d' instance = Inr rep \<and>
               map ir_id (rr_ingredients rep) = map pi_id (p_ingredients p) \<and>
               map (\<lambda>line. Some (ir_amount line)) (rr_ingredients rep)
                 = map pi_amount (p_ingredients p)))"
    by blast
qed

theorem create_request_lines_witness:
  "RecipeCreateSerializer_save
      \<lparr>recipe_insert_ok = (\<lambda>d r. True), line_insert_ok = (\<lambda>d row. True),
        amount_required = True, amount_ok = (\<lambda>n. 0 < n), scalar_errors = (\<lambda>p. [])\<rparr>
      (\<lambda>f. True)
      \<lparr>ctx_request = Some \<lparr>query_params = [], req_user = AuthUser
         \<lparr>pk = 7, email = ''f@x.org'', username = ''f'', first_name = ''F'',
          last_name = ''G'', recipes_count = None, is_subscribed_attr = None\<rparr>\<rparr>,
        ctx_recipes_limit = None\<rparr>
      None
      \<lparr>p_name = ''bread'', p_cooking_time = 30, p_text = ''bake'', p_tags = [],
        p_ingredients = [\<lparr>pi_id = 2, pi_amount = Some 5\<rparr>, \<lparr>pi_id = 1, pi_amount = Some 500\<rparr>],
        p_image = File \<lparr>cf_name = ''a.png'', cf_content = [1]\<rparr>, p_pub_date = None\<rparr>
      \<lparr>recipes = [], recipe_seq = 1,
        recipe_ingredients = [\<lparr>ri_recipe = 0, ri_ingredient = \<lparr>ing_id = 2, ing_name = ''salt'', measurement_unit = ''g''\<rparr>, ri_amount = 3\<rparr>],
        ingredient_table = [\<lparr>ing_id = 1, ing_name = ''flour'', measurement_unit = ''g''\<rparr>,
          \<lparr>ing_id = 2, ing_name = ''salt'', measurement_unit = ''g''\<rparr>],
        tag_table = [], subscriptions = []\<rparr>
    = (Inr \<lparr>r_id = 1, r_name = ''bread'', cooking_time = 30, r_text = ''bake'', r_tags = [],
        r_image = \<lparr>cf_name = ''a.png'', cf_content = [1]\<rparr>, pub_date = None,
        author = None\<rparr>,
       \<lparr>recipes = [\<lparr>r_id = 1, r_name = ''bread'', cooking_time = 30, r_text = ''bake'', r_tags = [],
        r_image = \<lparr>cf_name = ''a.png'', cf_content = [1]\<rparr>, pub_date = None,
        author = None\<rparr>],
        recipe_seq = 2,
        recipe_ingredients = [\<lparr>ri_recipe = 0, ri_ingredient = \<lparr>ing_id = 2, ing_name = ''salt'', measurement_unit = ''g''\<rparr>, ri_amount = 3\<rparr>,
          \<lparr>ri_recipe = 1, ri_ingredient = \<lparr>ing_id = 2, ing_name = ''salt'', measurement_unit = ''g''\<rparr>, ri_amount = 5\<rparr>,
          \<lparr>ri_recipe = 1, ri_ingredient = \<lparr>ing_id = 1, ing_name = ''flour'', measurement_unit = ''g''\<rparr>, ri_amount = 500\<rparr>],
        ingredient_table = [\<lparr>ing_id = 1, ing_name = ''flour'', measurement_unit = ''g''\<rparr>,
          \<lparr>ing_id = 2, ing_name = ''salt'', measurement_unit = ''g''\<rparr>],
        tag_table = [], subscriptions = []\<rparr>) \<and>
   list_all (\<lambda>row. ri_recipe row \<noteq> recipe_seq
       \<lparr>recipes = [], recipe_seq = 1,
        recipe_ingredients = [\<lparr>ri_recipe = 0, ri_ingredient = \<lparr>ing_id = 2, ing_name = ''salt'', measurement_unit = ''g''\<rparr>, ri_amount = 3\<rparr>],
        ingredient_table = [\<lparr>ing_id = 1, ing_name = ''flour'', measurement_unit = ''g''\<rparr>,
          \<lparr>ing_id = 2, ing_name = ''salt'', measurement_unit = ''g''\<rparr>],
        tag_table = [], subscriptions = []\<rparr>)
     (recipe_ingredients
       \<lparr>recipes = [], recipe_seq = 1,
        recipe_ingredients = [\<lparr>ri_recipe = 0, ri_ingredient = \<lparr>ing_id = 2, ing_name = ''salt'', measurement_unit = ''g''\<rparr>, ri_amount = 3\<rparr>],
        ingredient_table = [\<lparr>ing_id = 1, ing_name = ''flour'', measurement_unit = ''g''\<rparr>,
          \<lparr>ing_id = 2, ing_name = ''salt'', measurement_unit = ''g''\<rparr>],
        tag_table = [], subscriptions = []\<rparr>) \<and>
   RecipeCreateSerializer_to_representation
       \<lparr>recipes = [\<lparr>r_id = 1, r_name = ''bread'', cooking_time = 30, r_text = ''bake'', r_tags = [],
        r_image = \<lparr>cf_name = ''a.png'', cf_content = [1]\<rparr>, pub_date = None,
        author = None\<rparr>],
        recipe_seq = 2,
        recipe_ingredients = [\<lparr>ri_recipe = 0, ri_ingredient = \<lparr>ing_id = 2, ing_name = ''salt'', measurement_unit = ''g''\<rparr>, ri_amount = 3\<rparr>,
          \<lparr>ri_recipe = 1, ri_ingredient = \<lparr>ing_id = 2, ing_name = ''salt'', measurement_unit = ''g''\<rparr>, ri_amount = 5\<rparr>,
          \<lparr>ri_recipe = 1, ri_ingredient = \<lparr>ing_id = 1, ing_name = ''flour'', measurement_unit = ''g''\<rparr>, ri_amount = 500\<rparr>],
        ingredient_table = [\<lparr>ing_id = 1, ing_name = ''flour'', measurement_unit = ''g''\<rparr>,
          \<lparr>ing_id = 2, ing_name = ''salt'', measurement_unit = ''g''\<rparr>],
        tag_table = [], subscriptions = []\<rparr>
       \<lparr>r_id = 1, r_name = ''bread'', cooking_time = 30, r_text = ''bake'', r_tags = [],
        r_image = \<lparr>cf_name = ''a.png'', cf_content = [1]\<rparr>, pub_date = None,
        author = None\<rparr>
    = Inr \<lparr>rr_id = 1, rr_tags = [],
        rr_ingredients = [\<lparr>ir_id = 2, ir_name = ''salt'', ir_measurement_unit = ''g'', ir_amount = 5\<rparr>,
          \<lparr>ir_id = 1, ir_name = ''flour'', ir_measurement_unit = ''g'', ir_amount = 500\<rparr>],
        rr_image = ''a.png'', rr_author = None, rr_name = ''bread'', rr_cooking_time = 30,
        rr_text = ''bake''\<rparr> \<and>
   map ir_id (rr_ingredients
       \<lparr>rr_id = 1, rr_tags = [],
        rr_ingredients = [\<lparr>ir_id = 2, ir_name = ''salt'', ir_measurement_unit = ''g'', ir_amount = 5\<rparr>,
          \<lparr>ir_id = 1, ir_name = ''flour'', ir_measurement_unit = ''g'', ir_amount = 500\<rparr>],
        rr_image = ''a.png'', rr_author = None, rr_name = ''bread'', rr_cooking_time = 30,
        rr_text = ''bake''\<rparr>) = [2, 1] \<and>
   map (\<lambda>line. Some (ir_amount line)) (rr_ingredients
       \<lparr>rr_id = 1, rr_tags = [],
        rr_ingredients = [\<lparr>ir_id = 2, ir_name = ''salt'', ir_measurement_unit = ''g'', ir_amount = 5\<rparr>,
          \<lparr>ir_id = 1, ir_name = ''flour'', ir_measurement_unit = ''g'', ir_amount = 500\<rparr>],
        rr_image = ''a.png'', rr_author = None, rr_name = ''bread'', rr_cooking_time = 30,
        rr_text = ''bake''\<rparr>) = [Some 5, Some 500]"
proof -
  have h2: "\<forall>row \<in> set (recipe_ingredients
       \<lparr>recipes = [], recipe_seq = 1,
        recipe_ingredients = [\<lparr>ri_recipe = 0, ri_ingredient = \<lparr>ing_id = 2, ing_name = ''salt'', measurement_unit = ''g''\<rparr>, ri_amount = 3\<rparr>],
        ingredient_table = [\<lparr>ing_id = 1, ing_name = ''flour'', measurement_unit = ''g''\<rparr>,
          \<lparr>ing_id = 2, ing_name = ''salt'', measurement_unit = ''g''\<rparr>],
        tag_table = [], subscriptions = []\<rparr>).
      ri_recipe row \<noteq> recipe_seq
       \<lparr>recipes = [], recipe_seq = 1,
        recipe_ingredients = [\<lparr>ri_recipe = 0, ri_ingredient = \<lparr>ing_id = 2, ing_name = ''salt'', measurement_unit = ''g''\<rparr>, ri_amount = 3\<rparr>],
        ingredient_table = [\<lparr>ing_id = 1, ing_name = ''flour'', measurement_unit = ''g''\<rparr>,
          \<lparr>ing_id = 2, ing_name = ''salt'', measurement_unit = ''g''\<rparr>],
        tag_table = [], subscriptions = []\<rparr>"
    by simp
  note lines = create_request_lines [OF h2,
      of "\<lparr>recipe_insert_ok = (\<lambda>d r. True), line_insert_ok = (\<lambda>d row. True),
        amount_required = True, amount_ok = (\<lambda>n. 0 < n), scalar_errors = (\<lambda>p. [])\<rparr>"
      "\<lambda>f. True"
      "\<lparr>ctx_request = Some \<lparr>query_params = [], req_user = AuthUser
         \<lparr>pk = 7, email = ''f@x.org'', username = ''f'', first_name = ''F'',
          last_name = ''G'', recipes_count = None, is_subscribed_attr = None\<rparr>\<rparr>,
        ctx_recipes_limit = None\<rparr>"
      None
      "\<lparr>p_name = ''bread'', p_cooking_time = 30, p_text = ''bake'', p_tags = [],
        p_ingredients = [\<lparr>pi_id = 2, pi_amount = Some 5\<rparr>, \<lparr>pi_id = 1, pi_amount = Some 500\<rparr>],
        p_image = File \<lparr>cf_name = ''a.png'', cf_content = [1]\<rparr>, p_pub_date = None\<rparr>"]
  have acc: "\<exists>inst d'. RecipeCreateSerializer_save
      \<lparr>recipe_insert_ok = (\<lambda>d r. True), line_insert_ok = (\<lambda>d row. True),
        amount_required = True, amount_ok = (\<lambda>n. 0 < n), scalar_errors = (\<lambda>p. [])\<rparr>
      (\<lambda>f. True)
      \<lparr>ctx_request = Some \<lparr>query_params = [], req_user = AuthUser
         \<lparr>pk = 7, email = ''f@x.org'', username = ''f'', first_name = ''F'',
          last_name = ''G'', recipes_count = None, is_subscribed_attr = None\<rparr>\<rparr>,
        ctx_recipes_limit = None\<rparr>
      None
      \<lparr>p_name = ''bread'', p_cooking_time = 30, p_text = ''bake'', p_tags = [],
        p_ingredients = [\<lparr>pi_id = 2, pi_amount = Some 5\<rparr>, \<lparr>pi_id = 1, pi_amount = Some 500\<rparr>],
        p_image = File \<lparr>cf_name = ''a.png'', cf_content = [1]\<rparr>, p_pub_date = None\<rparr>
      \<lparr>recipes = [], recipe_seq = 1,
        recipe_ingredients = [\<lparr>ri_recipe = 0, ri_ingredient = \<lparr>ing_id = 2, ing_name = ''salt'', measurement_unit = ''g''\<rparr>, ri_amount = 3\<rparr>],
        ingredient_table = [\<lparr>ing_id = 1, ing_name = ''flour'', measurement_unit = ''g''\<rparr>,
          \<lparr>ing_id = 2, ing_name = ''salt'', measurement_unit = ''g''\<rparr>],
        tag_table = [], subscriptions = []\<rparr> = (Inr inst, d')"
    using lines [THEN conjunct2]
    by (simp add: ImageField_to_internal_value_def) blast
  have h1: "RecipeCreateSerializer_save
      \<lparr>recipe_insert_ok = (\<lambda>d r. True), line_insert_ok = (\<lambda>d row. True),
        amount_required = True, amount_ok = (\<lambda>n. 0 < n), scalar_errors = (\<lambda>p. [])\<rparr>
      (\<lambda>f. True)
      \<lparr>ctx_request = Some \<lparr>query_params = [], req_user = AuthUser
         \<lparr>pk = 7, email = ''f@x.org'', username = ''f'', first_name = ''F'',
          last_name = ''G'', recipes_count = None, is_subscribed_attr = None\<rparr>\<rparr>,
        ctx_recipes_limit = None\<rparr>
      None
      \<lparr>p_name = ''bread'', p_cooking_time = 30, p_text = ''bake'', p_tags = [],
        p_ingredients = [\<lparr>pi_id = 2, pi_amount = Some 5\<rparr>, \<lparr>pi_id = 1, pi_amount = Some 500\<rparr>],
        p_image = File \<lparr>cf_name = ''a.png'', cf_content = [1]\<rparr>, p_pub_date = None\<rparr>
      \<lparr>recipes = [], recipe_seq = 1,
        recipe_ingredients = [\<lparr>ri_recipe = 0, ri_ingredient = \<lparr>ing_id = 2, ing_name = ''salt'', measurement_unit = ''g''\<rparr>, ri_amount = 3\<rparr>],
        ingredient_table = [\<lparr>ing_id = 1, ing_name = ''flour'', measurement_unit = ''g''\<rparr>,
          \<lparr>ing_id = 2, ing_name = ''salt'', measurement_unit = ''g''\<rparr>],
        tag_table = [], subscriptions = []\<rparr>
    = (Inr \<lparr>r_id = 1, r_name = ''bread'', cooking_time = 30, r_text = ''bake'', r_tags = [],
        r_image = \<lparr>cf_name = ''a.png'', cf_content = [1]\<rparr>, pub_date = None,
        author = None\<rparr>,
       \<lparr>recipes = [\<lparr>r_id = 1, r_name = ''bread'', cooking_time = 30, r_text = ''bake'', r_tags = [],
        r_image = \<lparr>cf_name = ''a.png'', cf_content = [1]\<rparr>, pub_date = None,
        author = None\<rparr>],
        recipe_seq = 2,
        recipe_ingredients = [\<lparr>ri_recipe = 0, ri_ingredient = \<lparr>ing_id = 2, ing_name = ''salt'', measurement_unit = ''g''\<rparr>, ri_amount = 3\<rparr>,
          \<lparr>ri_recipe = 1, ri_ingredient = \<lparr>ing_id = 2, ing_name = ''salt'', measurement_unit = ''g''\<rparr>, ri_amount = 5\<rparr>,
          \<lparr>ri_recipe = 1, ri_ingredient = \<lparr>ing_id = 1, ing_name = ''flour'', measurement_unit = ''g''\<rparr>, ri_amount = 500\<rparr>],
        ingredient_table = [\<lparr>ing_id = 1, ing_name = ''flour'', measurement_unit = ''g''\<rparr>,
          \<lparr>ing_id = 2, ing_name = ''salt'', measurement_unit = ''g''\<rparr>],
        tag_table = [], subscriptions = []\<rparr>)"
    by (simp add: RecipeCreateSerializer_save_def RecipeCreateSerializer_run_validation_def
        RecipeCreateSerializer_create_def ModelSerializer_create_def
        RecipeIngredientCreateSerializer_to_internal_value_def PrimaryKeyRelatedField_ingredient_def
        amount_field_def ImageField_to_internal_value_def Let_def)
  have h3: "RecipeCreateSerializer_to_representation
       \<lparr>recipes = [\<lparr>r_id = 1, r_name = ''bread'', cooking_time = 30, r_text = ''bake'', r_tags = [],
        r_image = \<lparr>cf_name = ''a.png'', cf_content = [1]\<rparr>, pub_date = None,
        author = None\<rparr>],
        recipe_seq = 2,
        recipe_ingredients = [\<lparr>ri_recipe = 0, ri_ingredient = \<lparr>ing_id = 2, ing_name = ''salt'', measurement_unit = ''g''\<rparr>, ri_amount = 3\<rparr>,
          \<lparr>ri_recipe = 1, ri_ingredient = \<lparr>ing_id = 2, ing_name = ''salt'', measurement_unit = ''g''\<rparr>, ri_amount = 5\<rparr>,
          \<lparr>ri_recipe = 1, ri_ingredient = \<lparr>ing_id = 1, ing_name = ''flour'', measurement_unit = ''g''\<rparr>, ri_amount = 500\<rparr>],
        ingredient_table = [\<lparr>ing_id = 1, ing_name = ''flour'', measurement_unit = ''g''\<rparr>,
          \<lparr>ing_id = 2, ing_name = ''salt'', measurement_unit = ''g''\<rparr>],
        tag_table = [], subscriptions = []\<rparr>
       \<lparr>r_id = 1, r_name = ''bread'', cooking_time = 30, r_text = ''bake'', r_tags = [],
        r_image = \<lparr>cf_name = ''a.png'', cf_content = [1]\<rparr>, pub_date = None,
        author = None\<rparr>
    = Inr \<lparr>rr_id = 1, rr_tags = [],
        rr_ingredients = [\<lparr>ir_id = 2, ir_name = ''salt'', ir_measurement_unit = ''g'', ir_amount = 5\<rparr>,
          \<lparr>ir_id = 1, ir_name = ''flour'', ir_measurement_unit = ''g'', ir_amount = 500\<rparr>],
        rr_image = ''a.png'', rr_author = None, rr_name = ''bread'', rr_cooking_time = 30,
        rr_text = ''bake''\<rparr>"
    by (simp add: RecipeCreateSerializer_to_representation_def RecipeSerializer_to_representation_def
        recipe_lines_def RecipeIngredientSerializer_def)
  from lines [THEN conjunct1] h1 h3
  have "map ir_id (rr_ingredients
       \<lparr>rr_id = 1, rr_tags = [],
        rr_ingredients = [\<lparr>ir_id = 2, ir_name = ''salt'', ir_measurement_unit = ''g'', ir_amount = 5\<rparr>,
          \<lparr>ir_id = 1, ir_name = ''flour'', ir_measurement_unit = ''g'', ir_amount = 500\<rparr>],
        rr_image = ''a.png'', rr_author = None, rr_name = ''bread'', rr_cooking_time = 30,
        rr_text = ''bake''\<rparr>) = [2, 1] \<and>
   map (\<lambda>line. Some (ir_amount line)) (rr_ingredients
       \<lparr>rr_id = 1, rr_tags = [],
        rr_ingredients = [\<lparr>ir_id = 2, ir_name = ''salt'', ir_measurement_unit = ''g'', ir_amount = 5\<rparr>,
          \<lparr>ir_id = 1, ir_name = ''flour'', ir_measurement_unit = ''g'', ir_amount = 500\<rparr>],
        rr_image = ''a.png'', rr_author = None, rr_name = ''bread'', rr_cooking_time = 30,
        rr_text = ''bake''\<rparr>) = [Some 5, Some 500]"
    unfolding RecipeCreateSerializer_to_representation_def by auto
  with h1 h2 h3 acc show ?thesis by (simp add: list_all_iff)
qed

text \<open>
  C7: a create request with an ingredient id that is not in the ingredient table
  fails with the ValidationError of the payload, which names the field
  \<open>ingredients\<close>, and the database is as it was before: no recipe and no ingredient
  line is written.
\<close>

theorem unknown_ingredient_rejected:
  assumes "e \<in> set (p_ingredients p)" and "\<forall>i \<in> set (ingredient_table d). ing_id i \<noteq> pi_id e"
  shows "\<exists>fields. RecipeCreateSerializer_save sch image_ok ctx kw_author p d
       = (Inl (ValidationError fields), d) \<and> ''ingredients'' \<in> set fields"
proof -
  from run_validation_missing [OF assms, of sch image_ok] obtain fields where
    "RecipeCreateSerializer_run_validation sch image_ok d p = Inl (ValidationError fields)"
    "''ingredients'' \<in> set fields"
    by blast
  then show ?thesis by (auto simp: RecipeCreateSerializer_save_def)
qed

theorem unknown_ingredient_rejected_witness:
  "\<lparr>pi_id = 9, pi_amount = Some 1\<rparr> \<in> set (p_ingredients
      \<lparr>p_name = ''bread'', p_cooking_time = 30, p_text = ''bake'', p_tags = [],
        p_ingredients = [\<lparr>pi_id = 2, pi_amount = Some 5\<rparr>, \<lparr>pi_id = 9, pi_amount = Some 1\<rparr>],
        p_image = File \<lparr>cf_name = ''a.png'', cf_content = [1]\<rparr>, p_pub_date = None\<rparr>) \<and>
   pi_id \<lparr>pi_id = 9, pi_amount = Some 1\<rparr> \<notin> set (map ing_id (ingredient_table
       \<lparr>recipes = [], recipe_seq = 1, recipe_ingredients = [],
        ingredient_table = [\<lparr>ing_id = 1, ing_name = ''flour'', measurement_unit = ''g''\<rparr>,
          \<lparr>ing_id = 2, ing_name = ''salt'', measurement_unit = ''g''\<rparr>],
        tag_table = [], subscriptions = []\<rparr>)) \<and>
   RecipeCreateSerializer_save
      \<lparr>recipe_insert_ok = (\<lambda>d r. True), line_insert_ok = (\<lambda>d row. True),
        amount_required = True, amount_ok = (\<lambda>n. 0 < n), scalar_errors = (\<lambda>p. [])\<rparr>
      (\<lambda>f. True)
      \<lparr>ctx_request = Some \<lparr>query_params = [], req_user = AuthUser
         \<lparr>pk = 7, email = ''f@x.org'', username = ''f'', first_name = ''F'',
          last_name = ''G'', recipes_count = None, is_subscribed_attr = None\<rparr>\<rparr>,
        ctx_recipes_limit = None\<rparr>
      None
      \<lparr>p_name = ''bread'', p_cooking_time = 30, p_text = ''bake'', p_tags = [],
        p_ingredients = [\<lparr>pi_id = 2, pi_amount = Some 5\<rparr>, \<lparr>pi_id = 9, pi_amount = Some 1\<rparr>],
        p_image = File \<lparr>cf_name = ''a.png'', cf_content = [1]\<rparr>, p_pub_date = None\<rparr>
      \<lparr>recipes = [], recipe_seq = 1, recipe_ingredients = [],
        ingredient_table = [\<lparr>ing_id = 1, ing_name = ''flour'', measurement_unit = ''g''\<rparr>,
          \<lparr>ing_id = 2, ing_name = ''salt'', measurement_unit = ''g''\<rparr>],
        tag_table = [], subscriptions = []\<rparr>
    = (Inl (ValidationError [''ingredients'']),
       \<lparr>recipes = [], recipe_seq = 1, recipe_ingredients = [],
        ingredient_table = [\<lparr>ing_id = 1, ing_name = ''flour'', measurement_unit = ''g''\<rparr>,
          \<lparr>ing_id = 2, ing_name = ''salt'', measurement_unit = ''g''\<rparr>],
        tag_table = [], subscriptions = []\<rparr>)"
proof -
  have h1: "\<lparr>pi_id = 9, pi_amount = Some 1\<rparr> \<in> set (p_ingredients
      \<lparr>p_name = ''bread'', p_cooking_time = 30, p_text = ''bake'', p_tags = [],
        p_ingredients = [\<lparr>pi_id = 2, pi_amount = Some 5\<rparr>, \<lparr>pi_id = 9, pi_amount = Some 1\<rparr>],
        p_image = File \<lparr>cf_name = ''a.png'', cf_content = [1]\<rparr>, p_pub_date = None\<rparr>)"
    by simp
  have h2: "\<forall>i \<in> set (ingredient_table
       \<lparr>recipes = [], recipe_seq = 1, recipe_ingredients = [],
        ingredient_table = [\<lparr>ing_id = 1, ing_name = ''flour'', measurement_unit = ''g''\<rparr>,
          \<lparr>ing_id = 2, ing_name = ''salt'', measurement_unit = ''g''\<rparr>],
        tag_table = [], subscriptions = []\<rparr>).
      ing_id i \<noteq> pi_id \<lparr>pi_id = 9, pi_amount = Some 1\<rparr>"
    by simp
  have h3: "RecipeCreateSerializer_run_validation
      \<lparr>recipe_insert_ok = (\<lambda>d r. True), line_insert_ok = (\<lambda>d row. True),
        amount_required = True, amount_ok = (\<lambda>n. 0 < n), scalar_errors = (\<lambda>p. [])\<rparr>
      (\<lambda>f. True)
      \<lparr>recipes = [], recipe_seq = 1, recipe_ingredients = [],
        ingredient_table = [\<lparr>ing_id = 1, ing_name = ''flour'', measurement_unit = ''g''\<rparr>,
          \<lparr>ing_id = 2, ing_name = ''salt'', measurement_unit = ''g''\<rparr>],
        tag_table = [], subscriptions = []\<rparr>
      \<lparr>p_name = ''bread'', p_cooking_time = 30, p_text = ''bake'', p_tags = [],
        p_ingredients = [\<lparr>pi_id = 2, pi_amount = Some 5\<rparr>, \<lparr>pi_id = 9, pi_amount = Some 1\<rparr>],
        p_image = File \<lparr>cf_name = ''a.png'', cf_content = [1]\<rparr>, p_pub_date = None\<rparr> = Inl (ValidationError [''ingredients''])"
    by (simp add: RecipeCreateSerializer_run_validation_def
        RecipeIngredientCreateSerializer_to_internal_value_def PrimaryKeyRelatedField_ingredient_def
        amount_field_def ImageField_to_internal_value_def Let_def)
  from unknown_ingredient_rejected [OF h1 h2] h3
  have "RecipeCreateSerializer_save
      \<lparr>recipe_insert_ok = (\<lambda>d r. True), line_insert_ok = (\<lambda>d row. True),
        amount_required = True, amount_ok = (\<lambda>n. 0 < n), scalar_errors = (\<lambda>p. [])\<rparr>
      (\<lambda>f. True)
      \<lparr>ctx_request = Some \<lparr>query_params = [], req_user = AuthUser
         \<lparr>pk = 7, email = ''f@x.org'', username = ''f'', first_name = ''F'',
          last_name = ''G'', recipes_count = None, is_subscribed_attr = None\<rparr>\<rparr>,
        ctx_recipes_limit = None\<rparr>
      None
      \<lparr>p_name = ''bread'', p_cooking_time = 30, p_text = ''bake'', p_tags = [],
        p_ingredients = [\<lparr>pi_id = 2, pi_amount = Some 5\<rparr>, \<lparr>pi_id = 9, pi_amount = Some 1\<rparr>],
        p_image = File \<lparr>cf_name = ''a.png'', cf_content = [1]\<rparr>, p_pub_date = None\<rparr>
      \<lparr>recipes = [], recipe_seq = 1, recipe_ingredients = [],
        ingredient_table = [\<lparr>ing_id = 1, ing_name = ''flour'', measurement_unit = ''g''\<rparr>,
          \<lparr>ing_id = 2, ing_name = ''salt'', measurement_unit = ''g''\<rparr>],
        tag_table = [], subscriptions = []\<rparr>
    = (Inl (ValidationError [''ingredients'']),
       \<lparr>recipes = [], recipe_seq = 1, recipe_ingredients = [],
        ingredient_table = [\<lparr>ing_id = 1, ing_name = ''flour'', measurement_unit = ''g''\<rparr>,
          \<lparr>ing_id = 2, ing_name = ''salt'', measurement_unit = ''g''\<rparr>],
        tag_table = [], subscriptions = []\<rparr>)"
    by (simp add: RecipeCreateSerializer_save_def)
  with h1 show ?thesis by simp
qed




end
